theory Spec2Isabelle
  imports Complex_Main
begin

section \<open>JavaScript values\<close>

text \<open>
  The server is TypeScript. A JavaScript number is modelled as a rational: the numbers the
  server sees arrive as JSON literals or from the tracker, and none of its code does
  arithmetic on them (it only tests them and passes them on), so only equality, order and
  the test against zero matter. \<open>NaN\<close> and the infinities are outside the model.
  A string is a list of 8-bit characters; code units above 255 are outside the model.
\<close>

type_synonym number = rat

datatype json =
  JNull | JBool bool | JNum number | JStr string | JArr "json list" | JObj "(string \<times> json) list"

text \<open>
  The value stored under \<open>priority\<close> of a search. TypeScript declares it a number; the
  value read out of the object literal \<open>priorityMap\<close> can also be a member inherited from
  \<open>Object.prototype\<close> (a function or an object, which is truthy and is not a number).
\<close>

datatype priority_value = Num number | Inherited string

fun truthy_priority :: "priority_value \<Rightarrow> bool" where
  "truthy_priority (Num n) = (n \<noteq> 0)"
| "truthy_priority (Inherited k) = True"

section \<open>Errors, effects and the tracker client\<close>

datatype path_element = Key string | Index nat

record ZodIssue =
  issue_path :: "path_element list"
  issue_message :: string

text \<open>
  What a \<open>throw\<close> carries: a plain \<open>Error\<close> with its message, an \<open>Error\<close> that has a
  \<open>response\<close> property (message, \<open>response.status\<close>, \<open>response.data\<close>), a \<open>ZodError\<close>
  with its issues, or a value that is not an \<open>Error\<close> (given by its \<open>String(...)\<close>).
\<close>

datatype exn =
  Error string
| ResponseError string "json option" "json option"
| ZodError "ZodIssue list"
| NonError string

datatype PaginationOrderBy = CreatedAt | UpdatedAt

datatype string_comparator = Eq string | In "string list" | Contains string

datatype priority_comparator = PEq priority_value

datatype number_comparator = NEq number

datatype text_clause = Title string_comparator | Description string_comparator

text \<open>
  The filter object that \<open>buildSearchFilter\<close> fills: \<open>or\<close>, \<open>team.id\<close>, \<open>state.name\<close>,
  \<open>assignee.id\<close>, \<open>labels.some.name\<close>, \<open>priority\<close>, \<open>estimate\<close>. A key that was never
  assigned is \<open>None\<close>.
\<close>

record IssueFilter =
  filter_or :: "text_clause list option"
  filter_team_id :: "string_comparator option"
  filter_state_name :: "string_comparator option"
  filter_assignee_id :: "string_comparator option"
  filter_labels_some_name :: "string_comparator option"
  filter_priority :: "priority_comparator option"
  filter_estimate :: "number_comparator option"

record IssuesVariables =
  vars_filter :: "IssueFilter option"
  vars_first :: "number option"
  vars_orderBy :: "PaginationOrderBy option"
  vars_includeArchived :: "bool option"

record IssueCreateInput =
  input_title :: string
  input_teamId :: string
  input_description :: "string option"
  input_priority :: "number option"
  input_stateId :: "string option"

record IssueUpdateInput =
  upd_title :: "string option"
  upd_description :: "string option"
  upd_priority :: "number option"
  upd_stateId :: "string option"

record CommentCreateInput =
  input_issueId :: string
  input_body :: string
  input_createAsUser :: "string option"
  input_displayIconUrl :: "string option"

text \<open>
  Every operation of the tracker SDK that the source invokes, with its arguments. Lazy
  accessors of an SDK object (\<open>issue.state\<close>, \<open>payload.issue\<close>, ...) are operations of
  their own, named by the identifier of the object they are read from.
\<close>

datatype client_op =
  OpIssues IssuesVariables
| OpIssue string
| OpCreateIssue IssueCreateInput
| OpCreatedIssue
| OpIssueUpdate string IssueUpdateInput
| OpUpdatedIssue string
| OpIssueState string
| OpIssueAssignee string
| OpIssueTeam string
| OpIssueLabels string
| OpUser string
| OpViewer
| OpUserAssignedIssues string IssuesVariables
| OpUserTeams string
| OpCreateComment CommentCreateInput
| OpCreatedComment
| OpCommentIssue string
| OpTeam string
| OpTeamIssues string
| OpOrganization
| OpOrganizationTeams string
| OpOrganizationUsers string

datatype log_line = Log string | LogError string exn

text \<open>
  What a request leaves behind: the SDK operations invoked, the lines written with
  \<open>console.error\<close>, and the rejections of promises that were started and never awaited.
  Such a rejection has no handler; Node ends the process on it.
\<close>

record effects =
  calls :: "client_op list"
  stderr :: "log_line list"
  unhandled :: "exn list"

type_synonym 'a task = "effects \<Rightarrow> 'a \<times> effects"

type_synonym 'a io = "(exn + 'a) task"

definition task_return :: "'a \<Rightarrow> 'a task" where
  "task_return x = (\<lambda>s. (x, s))"

definition task_bind :: "'a task \<Rightarrow> ('a \<Rightarrow> 'b task) \<Rightarrow> 'b task" where
  "task_bind m f = (\<lambda>s. case m s of (x, s') \<Rightarrow> f x s')"

definition io_return :: "'a \<Rightarrow> 'a io" where
  "io_return x = task_return (Inr x)"

definition io_throw :: "exn \<Rightarrow> 'a io" where
  "io_throw e = task_return (Inl e)"

definition io_bind :: "'a io \<Rightarrow> ('a \<Rightarrow> 'b io) \<Rightarrow> 'b io" where
  "io_bind m f = task_bind m (\<lambda>r. case r of Inl e \<Rightarrow> io_throw e | Inr x \<Rightarrow> f x)"

definition console_error :: "log_line \<Rightarrow> unit task" where
  "console_error l = (\<lambda>s. ((), s\<lparr>stderr := stderr s @ [l]\<rparr>))"

text \<open>
  \<open>request answer op\<close> invokes an SDK operation: the operation is appended to the calls
  made so far and the tracker's answer, which may depend on everything asked before, is
  the settled promise. \<open>await\<close> of a promise is \<open>io_bind\<close> on it.
\<close>

definition request :: "(client_op list \<Rightarrow> exn + 'a) \<Rightarrow> client_op \<Rightarrow> 'a io" where
  "request answer op = (\<lambda>s. (answer (calls s @ [op]), s\<lparr>calls := calls s @ [op]\<rparr>))"

text \<open>
  \<open>await promise\<close> while other promises are pending: when the awaited promise rejects,
  the function throws and the pending promises are never awaited, so those of them that
  reject are left unhandled. \<open>rejection\<close> is the rejection of a settled promise, if any.
\<close>

definition rejection :: "exn + 'a \<Rightarrow> exn list" where
  "rejection promise = (case promise of Inl e \<Rightarrow> [e] | Inr x \<Rightarrow> [])"

definition abandon :: "exn list \<Rightarrow> unit task" where
  "abandon rejections = (\<lambda>s. ((), s\<lparr>unhandled := unhandled s @ rejections\<rparr>))"

definition await_then :: "exn + 'a \<Rightarrow> exn list \<Rightarrow> ('a \<Rightarrow> 'b io) \<Rightarrow> 'b io" where
  "await_then promise pending f =
    (case promise of
       Inl e \<Rightarrow> task_bind (abandon pending) (\<lambda>_. io_throw e)
     | Inr x \<Rightarrow> f x)"

text \<open>
  \<open>Promise.all(nodes.map(async ...))\<close>: every callback runs, each starting its requests, in
  the order of the list; the joined promise rejects if one of them rejects. The remote
  calls run concurrently in the source; the model takes them in the order they are
  started and reports the first rejection in list order.
\<close>

fun for_each :: "('n \<Rightarrow> 'r task) \<Rightarrow> 'n list \<Rightarrow> 'r list task" where
  "for_each f [] = task_return []"
| "for_each f (n # ns) = task_bind (f n) (\<lambda>r. task_bind (for_each f ns) (\<lambda>rs. task_return (r # rs)))"

fun settle_all :: "(exn + 'r) list \<Rightarrow> exn + 'r list" where
  "settle_all [] = Inr []"
| "settle_all (Inl e # rs) = Inl e"
| "settle_all (Inr x # rs) = (case settle_all rs of Inl e \<Rightarrow> Inl e | Inr xs \<Rightarrow> Inr (x # xs))"

definition promise_all :: "('n \<Rightarrow> 'r io) \<Rightarrow> 'n list \<Rightarrow> 'r list io" where
  "promise_all f ns = task_bind (for_each f ns) (\<lambda>rs. task_return (settle_all rs))"

subsection \<open>Objects of the tracker SDK\<close>

record Issue =
  issue_id :: string
  issue_identifier :: string
  issue_title :: string
  issue_description :: "string option"
  issue_priority :: number
  issue_estimate :: "number option"
  issue_url :: string

record User =
  user_id :: string
  user_name :: string
  user_email :: string
  user_admin :: bool
  user_active :: bool

record Team =
  team_id :: string
  team_name :: string
  team_key :: string

record WorkflowState =
  state_id :: string
  state_name :: string

record IssueLabel =
  label_id :: string
  label_name :: string

record Organization =
  organization_id :: string
  organization_name :: string
  organization_urlKey :: string

record Comment =
  comment_id :: string
  comment_url :: string

text \<open>
  The tracker, as the server sees it through the SDK: for each kind of answer, what the
  SDK resolves to after the given calls (the last of them is the operation asked). An
  answer is a rejection (\<open>Inl\<close>), \<open>Inr None\<close> for \<open>undefined\<close>, or the object.
\<close>

record LinearClient =
  issueConnection :: "client_op list \<Rightarrow> exn + Issue list option"
  issueFetch :: "client_op list \<Rightarrow> exn + Issue option"
  issueMutation :: "client_op list \<Rightarrow> exn + unit"
  userFetch :: "client_op list \<Rightarrow> exn + User option"
  userConnection :: "client_op list \<Rightarrow> exn + User list"
  teamFetch :: "client_op list \<Rightarrow> exn + Team option"
  teamConnection :: "client_op list \<Rightarrow> exn + Team list"
  workflowStateFetch :: "client_op list \<Rightarrow> exn + WorkflowState option"
  issueLabelConnection :: "client_op list \<Rightarrow> exn + IssueLabel list option"
  organizationFetch :: "client_op list \<Rightarrow> exn + Organization option"
  commentMutation :: "client_op list \<Rightarrow> exn + unit"
  commentFetch :: "client_op list \<Rightarrow> exn + Comment option"

text \<open>Reading a property of \<open>undefined\<close> throws a \<open>TypeError\<close>, which is an \<open>Error\<close>.\<close>

definition TypeError :: "string \<Rightarrow> exn" where
  "TypeError prop =
    Error (''Cannot read properties of undefined (reading '' @ [CHR 0x27] @ prop @ [CHR 0x27] @ '')'')"

definition defined :: "string \<Rightarrow> 'a option \<Rightarrow> 'a io" where
  "defined prop v = (case v of None \<Rightarrow> io_throw (TypeError prop) | Some x \<Rightarrow> io_return x)"

section \<open>The tracker client adapter: class LinearMCPClient\<close>

record CreateIssueArgs =
  create_title :: string
  create_teamId :: string
  create_description :: "string option"
  create_priority :: "number option"
  create_status :: "string option"

record UpdateIssueArgs =
  update_id :: string
  update_title :: "string option"
  update_description :: "string option"
  update_priority :: "number option"
  update_status :: "string option"

record SearchIssuesArgs =
  search_query :: "string option"
  search_teamId :: "string option"
  search_limit :: "number option"
  search_status :: "string option"
  search_assigneeId :: "string option"
  search_labels :: "string list option"
  search_priority :: "priority_value option"
  search_estimate :: "number option"
  search_includeArchived :: "bool option"

record GetUserIssuesArgs =
  get_userId :: "string option"
  get_includeArchived :: "bool option"
  get_limit :: "number option"

record AddCommentArgs =
  comment_issueId :: string
  comment_body :: string
  comment_createAsUser :: "string option"
  comment_displayIconUrl :: "string option"

text \<open>
  The flattened issue object that the adapter's methods return. Each method fills the
  keys its object literal has; a key a method does not write, and a key written with
  \<open>undefined\<close> or \<open>null\<close>, is \<open>None\<close>.
\<close>

record IssueSummary =
  sum_id :: string
  sum_identifier :: string
  sum_title :: string
  sum_description :: "string option"
  sum_priority :: number
  sum_estimate :: "number option"
  sum_status :: "string option"
  sum_assignee :: "string option"
  sum_team :: "string option"
  sum_labels :: "string list option"
  sum_url :: string

text \<open>\<open>x || d\<close> on an optional number and on an optional string.\<close>

definition number_or :: "number option \<Rightarrow> number \<Rightarrow> number" where
  "number_or x d = (case x of None \<Rightarrow> d | Some n \<Rightarrow> if n \<noteq> 0 then n else d)"

definition string_or_null :: "string option \<Rightarrow> string option" where
  "string_or_null x = (case x of None \<Rightarrow> None | Some s \<Rightarrow> if s \<noteq> [] then Some s else None)"

definition empty_filter :: IssueFilter where
  "empty_filter = \<lparr>filter_or = None, filter_team_id = None, filter_state_name = None,
     filter_assignee_id = None, filter_labels_some_name = None, filter_priority = None,
     filter_estimate = None\<rparr>"

text \<open>
  \<open>buildSearchFilter\<close>: each \<open>if (args.x)\<close> tests the truthiness of the field, so an
  absent field, an empty string and the number 0 are all skipped; labels are skipped
  when absent or of length 0.
\<close>

definition buildSearchFilter :: "SearchIssuesArgs \<Rightarrow> IssueFilter" where
  "buildSearchFilter args =
    (let filter0 = empty_filter;
         filter1 = (case search_query args of
                      None \<Rightarrow> filter0
                    | Some q \<Rightarrow> if q \<noteq> []
                        then filter0\<lparr>filter_or := Some [Title (Contains q), Description (Contains q)]\<rparr>
                        else filter0);
         filter2 = (case search_teamId args of
                      None \<Rightarrow> filter1
                    | Some t \<Rightarrow> if t \<noteq> [] then filter1\<lparr>filter_team_id := Some (Eq t)\<rparr> else filter1);
         filter3 = (case search_status args of
                      None \<Rightarrow> filter2
                    | Some st \<Rightarrow> if st \<noteq> [] then filter2\<lparr>filter_state_name := Some (Eq st)\<rparr> else filter2);
         filter4 = (case search_assigneeId args of
                      None \<Rightarrow> filter3
                    | Some a \<Rightarrow> if a \<noteq> [] then filter3\<lparr>filter_assignee_id := Some (Eq a)\<rparr> else filter3);
         filter5 = (case search_labels args of
                      None \<Rightarrow> filter4
                    | Some ls \<Rightarrow> if length ls > 0
                        then filter4\<lparr>filter_labels_some_name := Some (In ls)\<rparr> else filter4);
         filter6 = (case search_priority args of
                      None \<Rightarrow> filter5
                    | Some p \<Rightarrow> if truthy_priority p
                        then filter5\<lparr>filter_priority := Some (PEq p)\<rparr> else filter5);
         filter7 = (case search_estimate args of
                      None \<Rightarrow> filter6
                    | Some e \<Rightarrow> if e \<noteq> 0 then filter6\<lparr>filter_estimate := Some (NEq e)\<rparr> else filter6)
     in filter7)"

definition searchIssues_item :: "LinearClient \<Rightarrow> Issue \<Rightarrow> IssueSummary io" where
  "searchIssues_item client issue =
    task_bind (request (workflowStateFetch client) (OpIssueState (issue_id issue))) (\<lambda>statePromise.
    task_bind (request (userFetch client) (OpIssueAssignee (issue_id issue))) (\<lambda>assigneePromise.
    task_bind (request (issueLabelConnection client) (OpIssueLabels (issue_id issue))) (\<lambda>labelsPromise.
    io_bind (task_return statePromise) (\<lambda>state.
    io_bind (task_return assigneePromise) (\<lambda>assignee.
    io_bind (task_return labelsPromise) (\<lambda>labels.
    io_return \<lparr>sum_id = issue_id issue, sum_identifier = issue_identifier issue,
      sum_title = issue_title issue, sum_description = issue_description issue,
      sum_priority = issue_priority issue, sum_estimate = issue_estimate issue,
      sum_status = string_or_null (map_option state_name state),
      sum_assignee = string_or_null (map_option user_name assignee),
      sum_team = None,
      sum_labels = Some (case labels of None \<Rightarrow> [] | Some nodes \<Rightarrow> map label_name nodes),
      sum_url = issue_url issue\<rparr>))))))"

definition searchIssues :: "LinearClient \<Rightarrow> SearchIssuesArgs \<Rightarrow> IssueSummary list io" where
  "searchIssues client args =
    io_bind (request (issueConnection client)
      (OpIssues \<lparr>vars_filter = Some (buildSearchFilter args),
                 vars_first = Some (number_or (search_limit args) 10),
                 vars_orderBy = None,
                 vars_includeArchived = search_includeArchived args\<rparr>)) (\<lambda>result.
    io_bind (defined ''map'' result) (\<lambda>nodes.
    promise_all (searchIssues_item client) nodes))"


definition io_catch :: "'a io \<Rightarrow> (exn \<Rightarrow> 'a io) \<Rightarrow> 'a io" where
  "io_catch m h = task_bind m (\<lambda>r. case r of Inl e \<Rightarrow> h e | Inr x \<Rightarrow> io_return x)"

record IssueDetails =
  details_state :: "WorkflowState option"
  details_assignee :: "User option"
  details_team :: "Team option"

text \<open>
  \<open>getIssueDetails\<close> reads the three lazy accessors first, which starts the three
  fetches, and only then awaits them in turn: each \<open>await\<close> stands inside the array that
  is passed to \<open>Promise.all\<close>, so the promises behind the one that rejects are never
  awaited.
\<close>

definition getIssueDetails :: "LinearClient \<Rightarrow> Issue \<Rightarrow> IssueDetails io" where
  "getIssueDetails client issue =
    task_bind (request (workflowStateFetch client) (OpIssueState (issue_id issue))) (\<lambda>statePromise.
    task_bind (request (userFetch client) (OpIssueAssignee (issue_id issue))) (\<lambda>assigneePromise.
    task_bind (request (teamFetch client) (OpIssueTeam (issue_id issue))) (\<lambda>teamPromise.
    await_then statePromise (rejection assigneePromise @ rejection teamPromise) (\<lambda>state.
    await_then assigneePromise (rejection teamPromise) (\<lambda>assignee.
    await_then teamPromise [] (\<lambda>team.
    io_return \<lparr>details_state = state, details_assignee = assignee, details_team = team\<rparr>))))))"

record IssueMetadata =
  metadata_identifier :: string
  metadata_priority :: number
  metadata_status :: "string option"
  metadata_assignee :: "string option"
  metadata_team :: "string option"

record IssueResource =
  resource_uri :: string
  resource_mimeType :: string
  resource_name :: string
  resource_description :: string
  resource_metadata :: IssueMetadata

definition listIssues_item :: "LinearClient \<Rightarrow> Issue \<Rightarrow> IssueResource io" where
  "listIssues_item client issue =
    io_bind (getIssueDetails client issue) (\<lambda>details.
    io_return \<lparr>resource_uri = ''linear-issue://'' @ issue_id issue,
      resource_mimeType = ''application/json'',
      resource_name = issue_title issue,
      resource_description = ''Linear issue '' @ issue_identifier issue @ '': '' @ issue_title issue,
      resource_metadata = \<lparr>metadata_identifier = issue_identifier issue,
        metadata_priority = issue_priority issue,
        metadata_status = map_option state_name (details_state details),
        metadata_assignee = map_option user_name (details_assignee details),
        metadata_team = map_option team_name (details_team details)\<rparr>\<rparr>)"

definition listIssues :: "LinearClient \<Rightarrow> IssueResource list io" where
  "listIssues client =
    io_bind (request (issueConnection client)
      (OpIssues \<lparr>vars_filter = None, vars_first = Some 50, vars_orderBy = Some UpdatedAt,
                 vars_includeArchived = None\<rparr>)) (\<lambda>result.
    io_bind (defined ''map'' result) (\<lambda>nodes.
    promise_all (listIssues_item client) nodes))"

definition getIssue :: "LinearClient \<Rightarrow> string \<Rightarrow> IssueSummary io" where
  "getIssue client issueId =
    io_bind (request (issueFetch client) (OpIssue issueId)) (\<lambda>found.
    case found of
      None \<Rightarrow> io_throw (Error (''Issue '' @ issueId @ '' not found''))
    | Some result \<Rightarrow>
        io_bind (getIssueDetails client result) (\<lambda>details.
        io_return \<lparr>sum_id = issue_id result, sum_identifier = issue_identifier result,
          sum_title = issue_title result, sum_description = issue_description result,
          sum_priority = issue_priority result, sum_estimate = None,
          sum_status = map_option state_name (details_state details),
          sum_assignee = map_option user_name (details_assignee details),
          sum_team = map_option team_name (details_team details),
          sum_labels = None,
          sum_url = issue_url result\<rparr>))"

definition createIssue :: "LinearClient \<Rightarrow> CreateIssueArgs \<Rightarrow> Issue io" where
  "createIssue client args =
    io_bind (request (issueMutation client)
      (OpCreateIssue \<lparr>input_title = create_title args, input_teamId = create_teamId args,
         input_description = create_description args, input_priority = create_priority args,
         input_stateId = create_status args\<rparr>)) (\<lambda>issuePayload.
    io_bind (request (issueFetch client) OpCreatedIssue) (\<lambda>created.
    case created of
      None \<Rightarrow> io_throw (Error ''Failed to create issue'')
    | Some issue \<Rightarrow> io_return issue))"

definition updateIssue :: "LinearClient \<Rightarrow> UpdateIssueArgs \<Rightarrow> Issue io" where
  "updateIssue client args =
    io_bind (request (issueFetch client) (OpIssue (update_id args))) (\<lambda>found.
    case found of
      None \<Rightarrow> io_throw (Error (''Issue '' @ update_id args @ '' not found''))
    | Some issue \<Rightarrow>
        io_bind (request (issueMutation client)
          (OpIssueUpdate (issue_id issue)
             \<lparr>upd_title = update_title args, upd_description = update_description args,
              upd_priority = update_priority args, upd_stateId = update_status args\<rparr>)) (\<lambda>updatePayload.
        io_bind (request (issueFetch client) (OpUpdatedIssue (issue_id issue))) (\<lambda>updated.
        case updated of
          None \<Rightarrow> io_throw (Error ''Failed to update issue'')
        | Some updatedIssue \<Rightarrow> io_return updatedIssue)))"

definition getUserIssues_item :: "LinearClient \<Rightarrow> Issue \<Rightarrow> IssueSummary io" where
  "getUserIssues_item client issue =
    io_bind (request (workflowStateFetch client) (OpIssueState (issue_id issue))) (\<lambda>state.
    io_return \<lparr>sum_id = issue_id issue, sum_identifier = issue_identifier issue,
      sum_title = issue_title issue, sum_description = issue_description issue,
      sum_priority = issue_priority issue, sum_estimate = None,
      sum_status = string_or_null (map_option state_name state),
      sum_assignee = None, sum_team = None, sum_labels = None,
      sum_url = issue_url issue\<rparr>)"

text \<open>The body of the \<open>try\<close> block of \<open>getUserIssues\<close>.\<close>

definition getUserIssues_try :: "LinearClient \<Rightarrow> GetUserIssuesArgs \<Rightarrow> IssueSummary list io" where
  "getUserIssues_try client args =
    io_bind (case string_or_null (get_userId args) of
               Some userId \<Rightarrow> request (userFetch client) (OpUser userId)
             | None \<Rightarrow> request (userFetch client) OpViewer) (\<lambda>resolved.
    io_bind (defined ''assignedIssues'' resolved) (\<lambda>user.
    io_bind (request (issueConnection client)
      (OpUserAssignedIssues (user_id user)
         \<lparr>vars_filter = None, vars_first = Some (number_or (get_limit args) 50),
          vars_orderBy = None, vars_includeArchived = get_includeArchived args\<rparr>)) (\<lambda>result.
    case result of
      None \<Rightarrow> io_return []
    | Some nodes \<Rightarrow> promise_all (getUserIssues_item client) nodes)))"

definition getUserIssues :: "LinearClient \<Rightarrow> GetUserIssuesArgs \<Rightarrow> IssueSummary list io" where
  "getUserIssues client args =
    io_catch (getUserIssues_try client args) (\<lambda>error.
      task_bind (console_error (LogError ''Error in getUserIssues: '' error)) (\<lambda>_.
      io_throw error))"

definition addComment :: "LinearClient \<Rightarrow> AddCommentArgs \<Rightarrow> (Comment \<times> Issue option) io" where
  "addComment client args =
    io_bind (request (commentMutation client)
      (OpCreateComment \<lparr>input_issueId = comment_issueId args, input_body = comment_body args,
         input_createAsUser = comment_createAsUser args,
         input_displayIconUrl = comment_displayIconUrl args\<rparr>)) (\<lambda>commentPayload.
    io_bind (request (commentFetch client) OpCreatedComment) (\<lambda>created.
    case created of
      None \<Rightarrow> io_throw (Error ''Failed to create comment'')
    | Some comment \<Rightarrow>
        io_bind (request (issueFetch client) (OpCommentIssue (comment_id comment))) (\<lambda>issue.
        io_return (comment, issue))))"

text \<open>The callback of \<open>getTeamIssues\<close> awaits its two fetches in turn in the same way.\<close>

definition getTeamIssues_item :: "LinearClient \<Rightarrow> Issue \<Rightarrow> IssueSummary io" where
  "getTeamIssues_item client issue =
    task_bind (request (workflowStateFetch client) (OpIssueState (issue_id issue))) (\<lambda>statePromise.
    task_bind (request (userFetch client) (OpIssueAssignee (issue_id issue))) (\<lambda>assigneePromise.
    await_then statePromise (rejection assigneePromise) (\<lambda>state.
    await_then assigneePromise [] (\<lambda>assignee.
    io_return \<lparr>sum_id = issue_id issue, sum_identifier = issue_identifier issue,
      sum_title = issue_title issue, sum_description = issue_description issue,
      sum_priority = issue_priority issue, sum_estimate = None,
      sum_status = map_option state_name state,
      sum_assignee = map_option user_name assignee,
      sum_team = None, sum_labels = None,
      sum_url = issue_url issue\<rparr>))))"

definition getTeamIssues :: "LinearClient \<Rightarrow> string \<Rightarrow> IssueSummary list io" where
  "getTeamIssues client teamId =
    io_bind (request (teamFetch client) (OpTeam teamId)) (\<lambda>found.
    case found of
      None \<Rightarrow> io_throw (Error (''Team '' @ teamId @ '' not found''))
    | Some team \<Rightarrow>
        io_bind (request (issueConnection client) (OpTeamIssues (team_id team))) (\<lambda>result.
        io_bind (defined ''map'' result) (\<lambda>issues.
        promise_all (getTeamIssues_item client) issues)))"

record ViewerProfile =
  viewer_id :: string
  viewer_name :: string
  viewer_email :: string
  viewer_admin :: bool
  viewer_teams :: "Team list"
  viewer_organization :: Organization

definition getViewer :: "LinearClient \<Rightarrow> ViewerProfile io" where
  "getViewer client =
    io_bind (request (userFetch client) OpViewer) (\<lambda>resolved.
    io_bind (defined ''teams'' resolved) (\<lambda>viewer.
    task_bind (request (teamConnection client) (OpUserTeams (user_id viewer))) (\<lambda>teamsPromise.
    task_bind (request (organizationFetch client) OpOrganization) (\<lambda>organizationPromise.
    io_bind (task_return teamsPromise) (\<lambda>teams.
    io_bind (task_return organizationPromise) (\<lambda>fetched.
    io_bind (defined ''id'' fetched) (\<lambda>organization.
    io_return \<lparr>viewer_id = user_id viewer, viewer_name = user_name viewer,
      viewer_email = user_email viewer, viewer_admin = user_admin viewer,
      viewer_teams = teams, viewer_organization = organization\<rparr>)))))))"

record OrganizationProfile =
  profile_organization :: Organization
  profile_teams :: "Team list"
  profile_users :: "User list"

definition getOrganization :: "LinearClient \<Rightarrow> OrganizationProfile io" where
  "getOrganization client =
    io_bind (request (organizationFetch client) OpOrganization) (\<lambda>fetched.
    io_bind (defined ''teams'' fetched) (\<lambda>organization.
    task_bind (request (teamConnection client)
                 (OpOrganizationTeams (organization_id organization))) (\<lambda>teamsPromise.
    task_bind (request (userConnection client)
                 (OpOrganizationUsers (organization_id organization))) (\<lambda>usersPromise.
    io_bind (task_return teamsPromise) (\<lambda>teams.
    io_bind (task_return usersPromise) (\<lambda>users.
    io_return \<lparr>profile_organization = organization, profile_teams = teams,
      profile_users = users\<rparr>))))))"


section \<open>Static catalogs\<close>

record ResourceTemplate =
  template_uriTemplate :: string
  template_name :: string
  template_description :: string
  template_parameter :: "string \<times> string"
  template_examples :: "string list"

definition resourceTemplates :: "ResourceTemplate list" where
  "resourceTemplates =
    [\<lparr>template_uriTemplate = ''linear-issue://{issueId}'',
      template_name = ''Linear Issue'',
      template_description = ''A Linear issue with its details, comments, and metadata. Use this to fetch detailed information about a specific issue.'',
      template_parameter = (''issueId'', ''The unique identifier of the Linear issue (e.g., the internal ID)''),
      template_examples = [''linear-issue://c2b318fb-95d2-4a81-9539-f3268f34af87'']\<rparr>,
     \<lparr>template_uriTemplate = ''linear-team://{teamId}'',
      template_name = ''Team Issues'',
      template_description = ''All active issues belonging to a specific Linear team, including their status, priority, and assignees.'',
      template_parameter = (''teamId'', ''The unique identifier of the Linear team (found in team settings)''),
      template_examples = [''linear-team://TEAM-123'']\<rparr>,
     \<lparr>template_uriTemplate = ''linear-user://{userId}'',
      template_name = ''User Assigned Issues'',
      template_description = ''Active issues assigned to a specific Linear user. Returns issues sorted by update date.'',
      template_parameter = (''userId'', ''The unique identifier of the Linear user. Use 'me' for the authenticated user''),
      template_examples = [''linear-user://USER-123'', ''linear-user://me'']\<rparr>,
     \<lparr>template_uriTemplate = ''linear-search://{query}'',
      template_name = ''Search Linear Issues'',
      template_description = ''Search for Linear issues with a query string'',
      template_parameter = (''query'', ''Search query for finding issues''),
      template_examples = [''linear-search://bug'', ''linear-search://priority:high'']\<rparr>,
     \<lparr>template_uriTemplate = ''linear-priority://{level}'',
      template_name = ''Issues by Priority'',
      template_description = ''Find Linear issues matching a specific priority level'',
      template_parameter = (''level'', ''Priority level (urgent, high, medium, low, or none)''),
      template_examples = [''linear-priority://urgent'', ''linear-priority://high'']\<rparr>]"

record Resource =
  listed_uri :: string
  listed_name :: string
  listed_description :: string
  listed_mimeType :: string

text \<open>The handler of \<open>ListResourcesRequestSchema\<close>: the resources and the templates.\<close>

definition listResources :: "Resource list \<times> ResourceTemplate list" where
  "listResources =
    ([\<lparr>listed_uri = ''linear-viewer://'', listed_name = ''Linear User Profile'',
       listed_description = ''Your Linear user profile information, including teams and permissions'',
       listed_mimeType = ''application/json''\<rparr>,
      \<lparr>listed_uri = ''linear-organization://'', listed_name = ''Linear Organization'',
       listed_description = ''Details about your Linear organization, including teams and settings'',
       listed_mimeType = ''application/json''\<rparr>,
      \<lparr>listed_uri = ''linear-my-issues://'', listed_name = ''My Linear Issues'',
       listed_description = ''All issues currently assigned to you'',
       listed_mimeType = ''application/json''\<rparr>,
      \<lparr>listed_uri = ''linear-my-backlog://'', listed_name = ''My Backlog Issues'',
       listed_description = ''Issues assigned to you in the Backlog'',
       listed_mimeType = ''application/json''\<rparr>,
      \<lparr>listed_uri = ''linear-my-planned://'', listed_name = ''My Planned Issues'',
       listed_description = ''Issues assigned to you that are Planned this Cycle'',
       listed_mimeType = ''application/json''\<rparr>,
      \<lparr>listed_uri = ''linear-my-in-progress://'', listed_name = ''My In-Progress Issues'',
       listed_description = ''Issues assigned to you that are currently in progress'',
       listed_mimeType = ''application/json''\<rparr>,
      \<lparr>listed_uri = ''linear-my-under-review://'', listed_name = ''My Under Review Issues'',
       listed_description = ''Issues assigned to you that are under review'',
       listed_mimeType = ''application/json''\<rparr>,
      \<lparr>listed_uri = ''linear-my-high-priority://'', listed_name = ''My High Priority Issues'',
       listed_description = ''High priority issues assigned to you'',
       listed_mimeType = ''application/json''\<rparr>],
     resourceTemplates)"

section \<open>Reading a resource\<close>

text \<open>
  \<open>uri.match(/^([^:]+):\/\/(.*)/)\<close>: the first group is the longest prefix without a
  colon and must not be empty, since \<open>[^:]+\<close> cannot pass a colon and the next
  characters must be \<open>://\<close>; the second group runs to the end of the line (\<open>.\<close> does not
  match a line terminator). No match is \<open>None\<close>.
\<close>

definition line_terminator :: "char \<Rightarrow> bool" where
  "line_terminator c = (c = CHR 0x0A \<or> c = CHR 0x0D)"

definition protocolMatch :: "string \<Rightarrow> (string \<times> string) option" where
  "protocolMatch uri =
    (let protocol = takeWhile (\<lambda>c. c \<noteq> CHR '':'') uri;
         rest = dropWhile (\<lambda>c. c \<noteq> CHR '':'') uri
     in if protocol \<noteq> [] \<and> take 3 rest = ''://''
        then Some (protocol, takeWhile (\<lambda>c. \<not> line_terminator c) (drop 3 rest))
        else None)"

text \<open>\<open>String.prototype.toLowerCase\<close> on code units below 256.\<close>

definition toLowerCase_char :: "char \<Rightarrow> char" where
  "toLowerCase_char c =
    (let n = (of_char c :: nat)
     in if (65 \<le> n \<and> n \<le> 90) \<or> (192 \<le> n \<and> n \<le> 222 \<and> n \<noteq> 215)
        then char_of (n + 32) else c)"

definition toLowerCase :: "string \<Rightarrow> string" where
  "toLowerCase s = map toLowerCase_char s"

text \<open>
  \<open>priorityMap[key]\<close>: the five own properties of the object literal; any other key is
  looked up in \<open>Object.prototype\<close>, whose members are found under their names; every
  remaining key gives \<open>undefined\<close> (\<open>None\<close>).
\<close>

definition Object_prototype_keys :: "string list" where
  "Object_prototype_keys =
    [''constructor'', ''__proto__'', ''hasOwnProperty'', ''isPrototypeOf'',
     ''propertyIsEnumerable'', ''toLocaleString'', ''toString'', ''valueOf'',
     ''__defineGetter__'', ''__defineSetter__'', ''__lookupGetter__'', ''__lookupSetter__'']"

definition priorityMap :: "string \<Rightarrow> priority_value option" where
  "priorityMap key =
    (if key = ''urgent'' then Some (Num 1)
     else if key = ''high'' then Some (Num 2)
     else if key = ''medium'' then Some (Num 3)
     else if key = ''low'' then Some (Num 4)
     else if key = ''none'' then Some (Num 0)
     else if key \<in> set Object_prototype_keys then Some (Inherited key)
     else None)"

text \<open>The \<open>text\<close> of a resource is \<open>JSON.stringify\<close> of one of these values.\<close>

datatype payload =
  OrganizationJson OrganizationProfile
| ViewerJson ViewerProfile
| IssuesJson "IssueSummary list"
| IssueJson IssueSummary
| ResourcesJson "IssueResource list"

record ResourceContents =
  contents_uri :: string
  contents_mimeType :: string
  contents_text :: payload

definition contents :: "string \<Rightarrow> payload \<Rightarrow> ResourceContents list" where
  "contents uri text =
    [\<lparr>contents_uri = uri, contents_mimeType = ''application/json'', contents_text = text\<rparr>]"

definition no_search :: SearchIssuesArgs where
  "no_search = \<lparr>search_query = None, search_teamId = None, search_limit = None,
     search_status = None, search_assigneeId = None, search_labels = None,
     search_priority = None, search_estimate = None, search_includeArchived = None\<rparr>"

text \<open>The handler of \<open>ReadResourceRequestSchema\<close>.\<close>

definition readResource :: "LinearClient \<Rightarrow> string \<Rightarrow> ResourceContents list io" where
  "readResource linearClient uri =
    (case protocolMatch uri of
       None \<Rightarrow> io_throw (Error (''Invalid URI format: '' @ uri))
     | Some (protocol, path) \<Rightarrow>
       if protocol = ''linear-organization'' then
         io_bind (getOrganization linearClient) (\<lambda>organization.
         io_return (contents ''linear-organization://'' (OrganizationJson organization)))
       else if protocol = ''linear-viewer'' then
         io_bind (getViewer linearClient) (\<lambda>viewer.
         io_return (contents ''linear-viewer://'' (ViewerJson viewer)))
       else if protocol = ''linear-my-issues'' then
         io_bind (getUserIssues linearClient
           \<lparr>get_userId = None, get_includeArchived = None, get_limit = None\<rparr>) (\<lambda>issues.
         io_return (contents ''linear-my-issues://'' (IssuesJson issues)))
       else if protocol = ''linear-my-backlog'' then
         io_bind (getViewer linearClient) (\<lambda>viewer.
         io_bind (searchIssues linearClient
           (no_search\<lparr>search_assigneeId := Some (viewer_id viewer),
                      search_status := Some ''Backlog''\<rparr>)) (\<lambda>issues.
         io_return (contents ''linear-my-backlog://'' (IssuesJson issues))))
       else if protocol = ''linear-my-planned'' then
         io_bind (getViewer linearClient) (\<lambda>viewer.
         io_bind (searchIssues linearClient
           (no_search\<lparr>search_assigneeId := Some (viewer_id viewer),
                      search_status := Some ''Planned this Cycle''\<rparr>)) (\<lambda>issues.
         io_return (contents ''linear-my-planned://'' (IssuesJson issues))))
       else if protocol = ''linear-my-in-progress'' then
         io_bind (getViewer linearClient) (\<lambda>viewer.
         io_bind (searchIssues linearClient
           (no_search\<lparr>search_assigneeId := Some (viewer_id viewer),
                      search_status := Some ''In Progress''\<rparr>)) (\<lambda>issues.
         io_return (contents ''linear-my-in-progress://'' (IssuesJson issues))))
       else if protocol = ''linear-my-under-review'' then
         io_bind (getViewer linearClient) (\<lambda>viewer.
         io_bind (searchIssues linearClient
           (no_search\<lparr>search_assigneeId := Some (viewer_id viewer),
                      search_status := Some ''Under Review''\<rparr>)) (\<lambda>issues.
         io_return (contents ''linear-my-under-review://'' (IssuesJson issues))))
       else if protocol = ''linear-my-high-priority'' then
         io_bind (getViewer linearClient) (\<lambda>viewer.
         io_bind (searchIssues linearClient
           (no_search\<lparr>search_assigneeId := Some (viewer_id viewer),
                      search_priority := Some (Num 1)\<rparr>)) (\<lambda>urgentIssues.
         io_bind (searchIssues linearClient
           (no_search\<lparr>search_assigneeId := Some (viewer_id viewer),
                      search_priority := Some (Num 2)\<rparr>)) (\<lambda>highIssues.
         io_return (contents ''linear-my-high-priority://''
                      (IssuesJson (urgentIssues @ highIssues))))))
       else if protocol = ''linear-recent-issues'' then
         io_bind (listIssues linearClient) (\<lambda>issues.
         io_return (contents ''linear-recent-issues://'' (ResourcesJson issues)))
       else if protocol = ''linear-issue'' then
         (if path = [] then io_throw (Error ''Issue ID is required for linear-issue resource'')
          else io_bind (getIssue linearClient path) (\<lambda>issue.
               io_return (contents (''linear-issue://'' @ path) (IssueJson issue))))
       else if protocol = ''linear-team'' then
         (if path = [] then io_throw (Error ''Team ID is required for linear-team resource'')
          else io_bind (getTeamIssues linearClient path) (\<lambda>issues.
               io_return (contents (''linear-team://'' @ path) (IssuesJson issues))))
       else if protocol = ''linear-user'' then
         (if path = [] then io_throw (Error ''User ID is required for linear-user resource'')
          else io_bind (getUserIssues linearClient
                 \<lparr>get_userId = (if path = ''me'' then None else Some path),
                  get_includeArchived = None, get_limit = None\<rparr>) (\<lambda>issues.
               io_return (contents (''linear-user://'' @ path) (IssuesJson issues))))
       else if protocol = ''linear-search'' then
         (if path = [] then io_throw (Error ''Search query is required for linear-search resource'')
          else io_bind (searchIssues linearClient (no_search\<lparr>search_query := Some path\<rparr>)) (\<lambda>issues.
               io_return (contents (''linear-search://'' @ path) (IssuesJson issues))))
       else if protocol = ''linear-priority'' then
         (if path = [] then io_throw (Error ''Priority level is required for linear-priority resource'')
          else case priorityMap (toLowerCase path) of
                 None \<Rightarrow> io_throw (Error (''Invalid priority level: '' @ path @
                           ''. Valid values are: urgent, high, medium, low, none''))
               | Some priority \<Rightarrow>
                   io_bind (searchIssues linearClient
                              (no_search\<lparr>search_priority := Some priority\<rparr>)) (\<lambda>issues.
                   io_return (contents (''linear-priority://'' @ path) (IssuesJson issues))))
       else io_throw (Error (''Unsupported resource URI: '' @ uri)))"


section \<open>Tool arguments and their zod schemas\<close>

text \<open>
  The schema library is not part of the repository; the model follows its documented
  behaviour for the constructions the source uses. A field parser gets the path of the
  field and its value (\<open>None\<close> when the key is missing) and yields the issues or the
  parsed value. An object schema parses every field and reports the issues of all of
  them, in the order of the fields.
\<close>

type_synonym 'a parsed = "ZodIssue list + 'a"

type_synonym 'a field_parser = "path_element list \<Rightarrow> json option \<Rightarrow> 'a parsed"

fun type_name :: "json \<Rightarrow> string" where
  "type_name JNull = ''null''"
| "type_name (JBool b) = ''boolean''"
| "type_name (JNum n) = ''number''"
| "type_name (JStr s) = ''string''"
| "type_name (JArr xs) = ''array''"
| "type_name (JObj kvs) = ''object''"

definition invalid_type :: "path_element list \<Rightarrow> string \<Rightarrow> json option \<Rightarrow> ZodIssue list" where
  "invalid_type path expected v =
    (case v of
       None \<Rightarrow> [\<lparr>issue_path = path, issue_message = ''Required''\<rparr>]
     | Some j \<Rightarrow> [\<lparr>issue_path = path,
                   issue_message = ''Expected '' @ expected @ '', received '' @ type_name j\<rparr>])"

definition z_string :: "string field_parser" where
  "z_string path v = (case v of Some (JStr s) \<Rightarrow> Inr s | _ \<Rightarrow> Inl (invalid_type path ''string'' v))"

definition z_number :: "number field_parser" where
  "z_number path v = (case v of Some (JNum n) \<Rightarrow> Inr n | _ \<Rightarrow> Inl (invalid_type path ''number'' v))"

definition z_boolean :: "bool field_parser" where
  "z_boolean path v = (case v of Some (JBool b) \<Rightarrow> Inr b | _ \<Rightarrow> Inl (invalid_type path ''boolean'' v))"

text \<open>\<open>z.number().min(0).max(4)\<close>: both checks run on a value that is a number.\<close>

definition z_number_min_0_max_4 :: "number field_parser" where
  "z_number_min_0_max_4 path v =
    (case z_number path v of
       Inl issues \<Rightarrow> Inl issues
     | Inr n \<Rightarrow>
        (case (if n < 0 then [\<lparr>issue_path = path,
                                issue_message = ''Number must be greater than or equal to 0''\<rparr>] else [])
              @ (if 4 < n then [\<lparr>issue_path = path,
                                  issue_message = ''Number must be less than or equal to 4''\<rparr>] else [])
         of [] \<Rightarrow> Inr n | i # issues \<Rightarrow> Inl (i # issues)))"

fun z_elements :: "'a field_parser \<Rightarrow> path_element list \<Rightarrow> nat \<Rightarrow> json list \<Rightarrow> 'a list parsed" where
  "z_elements element path i [] = Inr []"
| "z_elements element path i (x # xs) =
    (case (element (path @ [Index i]) (Some x), z_elements element path (Suc i) xs) of
       (Inr y, Inr ys) \<Rightarrow> Inr (y # ys)
     | (Inl issues, Inr ys) \<Rightarrow> Inl issues
     | (Inr y, Inl issues) \<Rightarrow> Inl issues
     | (Inl issues, Inl others) \<Rightarrow> Inl (issues @ others))"

definition z_array :: "'a field_parser \<Rightarrow> 'a list field_parser" where
  "z_array element path v =
    (case v of Some (JArr xs) \<Rightarrow> z_elements element path 0 xs
     | _ \<Rightarrow> Inl (invalid_type path ''array'' v))"

definition z_optional :: "'a field_parser \<Rightarrow> 'a option field_parser" where
  "z_optional inner path v =
    (case v of
       None \<Rightarrow> Inr None
     | Some j \<Rightarrow> (case inner path v of Inl issues \<Rightarrow> Inl issues | Inr x \<Rightarrow> Inr (Some x)))"

definition z_field :: "(string \<rightharpoonup> json) \<Rightarrow> string \<Rightarrow> 'a field_parser \<Rightarrow> 'a parsed" where
  "z_field args key parser = parser [Key key] (args key)"

text \<open>Applying a constructor to parsed fields, keeping the issues of every field.\<close>

fun z_ap :: "('a \<Rightarrow> 'b) parsed \<Rightarrow> 'a parsed \<Rightarrow> 'b parsed" where
  "z_ap (Inr f) (Inr x) = Inr (f x)"
| "z_ap (Inl issues) (Inr x) = Inl issues"
| "z_ap (Inr f) (Inl issues) = Inl issues"
| "z_ap (Inl issues) (Inl others) = Inl (issues @ others)"

definition CreateIssueArgsSchema :: "(string \<rightharpoonup> json) \<Rightarrow> CreateIssueArgs parsed" where
  "CreateIssueArgsSchema args =
    z_ap (z_ap (z_ap (z_ap (z_ap
      (Inr (\<lambda>title teamId description priority status.
         \<lparr>create_title = title, create_teamId = teamId, create_description = description,
          create_priority = priority, create_status = status\<rparr>))
      (z_field args ''title'' z_string))
      (z_field args ''teamId'' z_string))
      (z_field args ''description'' (z_optional z_string)))
      (z_field args ''priority'' (z_optional z_number_min_0_max_4)))
      (z_field args ''status'' (z_optional z_string))"

definition UpdateIssueArgsSchema :: "(string \<rightharpoonup> json) \<Rightarrow> UpdateIssueArgs parsed" where
  "UpdateIssueArgsSchema args =
    z_ap (z_ap (z_ap (z_ap (z_ap
      (Inr (\<lambda>id title description priority status.
         \<lparr>update_id = id, update_title = title, update_description = description,
          update_priority = priority, update_status = status\<rparr>))
      (z_field args ''id'' z_string))
      (z_field args ''title'' (z_optional z_string)))
      (z_field args ''description'' (z_optional z_string)))
      (z_field args ''priority'' (z_optional z_number)))
      (z_field args ''status'' (z_optional z_string))"

definition SearchIssuesArgsSchema :: "(string \<rightharpoonup> json) \<Rightarrow> SearchIssuesArgs parsed" where
  "SearchIssuesArgsSchema args =
    z_ap (z_ap (z_ap (z_ap (z_ap (z_ap (z_ap (z_ap (z_ap
      (Inr (\<lambda>query teamId status assigneeId labels priority estimate includeArchived limit.
         \<lparr>search_query = query, search_teamId = teamId, search_limit = limit,
          search_status = status, search_assigneeId = assigneeId, search_labels = labels,
          search_priority = map_option Num priority, search_estimate = estimate,
          search_includeArchived = includeArchived\<rparr>))
      (z_field args ''query'' (z_optional z_string)))
      (z_field args ''teamId'' (z_optional z_string)))
      (z_field args ''status'' (z_optional z_string)))
      (z_field args ''assigneeId'' (z_optional z_string)))
      (z_field args ''labels'' (z_optional (z_array z_string))))
      (z_field args ''priority'' (z_optional z_number)))
      (z_field args ''estimate'' (z_optional z_number)))
      (z_field args ''includeArchived'' (z_optional z_boolean)))
      (z_field args ''limit'' (z_optional z_number))"

definition GetUserIssuesArgsSchema :: "(string \<rightharpoonup> json) \<Rightarrow> GetUserIssuesArgs parsed" where
  "GetUserIssuesArgsSchema args =
    z_ap (z_ap (z_ap
      (Inr (\<lambda>userId includeArchived limit.
         \<lparr>get_userId = userId, get_includeArchived = includeArchived, get_limit = limit\<rparr>))
      (z_field args ''userId'' (z_optional z_string)))
      (z_field args ''includeArchived'' (z_optional z_boolean)))
      (z_field args ''limit'' (z_optional z_number))"

definition AddCommentArgsSchema :: "(string \<rightharpoonup> json) \<Rightarrow> AddCommentArgs parsed" where
  "AddCommentArgsSchema args =
    z_ap (z_ap (z_ap (z_ap
      (Inr (\<lambda>issueId body createAsUser displayIconUrl.
         \<lparr>comment_issueId = issueId, comment_body = body,
          comment_createAsUser = createAsUser, comment_displayIconUrl = displayIconUrl\<rparr>))
      (z_field args ''issueId'' z_string))
      (z_field args ''body'' z_string))
      (z_field args ''createAsUser'' (z_optional z_string)))
      (z_field args ''displayIconUrl'' (z_optional z_string))"

text \<open>\<open>Schema.parse(args)\<close> throws a \<open>ZodError\<close> with the issues.\<close>

definition parse :: "'a parsed \<Rightarrow> 'a io" where
  "parse p = (case p of Inl issues \<Rightarrow> io_throw (ZodError issues) | Inr validatedArgs \<Rightarrow> io_return validatedArgs)"

section \<open>Calling a tool\<close>

text \<open>
  A template literal is kept as the list of its pieces, so that no number has to be
  printed: \<open>Lit\<close> is text, \<open>Number\<close> an interpolated number.
\<close>

datatype fragment = Lit string | Number number

record FormattedError =
  formatted_path :: "path_element list"
  formatted_message :: string
  formatted_code :: string

datatype content_text =
  Text "fragment list"
| ErrorText string string "FormattedError list option"

record ApiError =
  api_code :: string
  api_message :: string
  api_status :: "json option"
  api_data :: "json option"

text \<open>
  The object a tool call returns: \<open>content\<close> (one text item), \<open>metadata.error\<close>, and the
  \<open>error\<close> key of the API-error shape. A key the object literal does not have is \<open>None\<close>.
\<close>

record CallToolResult =
  result_content :: "content_text list option"
  result_metadata_error :: "bool option"
  result_error :: "ApiError option"

definition text_result :: "fragment list \<Rightarrow> CallToolResult" where
  "text_result text = \<lparr>result_content = Some [Text text], result_metadata_error = None,
     result_error = None\<rparr>"

definition issue_line :: "IssueSummary \<Rightarrow> fragment list" where
  "issue_line issue =
    [Lit ''- '', Lit (sum_identifier issue), Lit '': '', Lit (sum_title issue),
     Lit (CHR 0x0A # ''  Priority: ''),
     (if sum_priority issue \<noteq> 0 then Number (sum_priority issue) else Lit ''None''),
     Lit (CHR 0x0A # ''  Status: ''),
     Lit (case string_or_null (sum_status issue) of None \<Rightarrow> ''None'' | Some status \<Rightarrow> status),
     Lit (CHR 0x0A # ''  ''), Lit (sum_url issue)]"

fun join_lines :: "fragment list list \<Rightarrow> fragment list" where
  "join_lines [] = []"
| "join_lines [l] = l"
| "join_lines (l # m # ls) = l @ [Lit [CHR 0x0A]] @ join_lines (m # ls)"

definition found_issues :: "IssueSummary list \<Rightarrow> CallToolResult" where
  "found_issues issues =
    text_result ([Lit ''Found '', Number (of_nat (length issues)), Lit ('' issues:'' @ [CHR 0x0A])]
                 @ join_lines (map issue_line issues))"

text \<open>The body of the \<open>try\<close> block of the handler of \<open>CallToolRequestSchema\<close>.\<close>

definition callTool_try ::
  "LinearClient \<Rightarrow> string \<Rightarrow> (string \<rightharpoonup> json) option \<Rightarrow> CallToolResult io" where
  "callTool_try linearClient name arguments =
    (case arguments of
       None \<Rightarrow> io_throw (Error ''Missing arguments'')
     | Some args \<Rightarrow>
       if name = ''linear_create_issue'' then
         io_bind (parse (CreateIssueArgsSchema args)) (\<lambda>validatedArgs.
         io_bind (createIssue linearClient validatedArgs) (\<lambda>issue.
         io_return (text_result
           [Lit ''Created issue '', Lit (issue_identifier issue), Lit '': '',
            Lit (issue_title issue), Lit (CHR 0x0A # ''URL: ''), Lit (issue_url issue)])))
       else if name = ''linear_update_issue'' then
         io_bind (parse (UpdateIssueArgsSchema args)) (\<lambda>validatedArgs.
         io_bind (updateIssue linearClient validatedArgs) (\<lambda>issue.
         io_return (text_result
           [Lit ''Updated issue '', Lit (issue_identifier issue),
            Lit (CHR 0x0A # ''URL: ''), Lit (issue_url issue)])))
       else if name = ''linear_search_issues'' then
         io_bind (parse (SearchIssuesArgsSchema args)) (\<lambda>validatedArgs.
         io_bind (searchIssues linearClient validatedArgs) (\<lambda>issues.
         io_return (found_issues issues)))
       else if name = ''linear_get_user_issues'' then
         io_bind (parse (GetUserIssuesArgsSchema args)) (\<lambda>validatedArgs.
         io_bind (getUserIssues linearClient validatedArgs) (\<lambda>issues.
         io_return (found_issues issues)))
       else if name = ''linear_add_comment'' then
         io_bind (parse (AddCommentArgsSchema args)) (\<lambda>validatedArgs.
         io_bind (addComment linearClient validatedArgs) (\<lambda>(comment, issue).
         io_return (text_result
           [Lit ''Added comment to issue '',
            Lit (case issue of None \<Rightarrow> ''undefined'' | Some i \<Rightarrow> issue_identifier i),
            Lit (CHR 0x0A # ''URL: ''), Lit (comment_url comment)])))
       else io_throw (Error (''Unknown tool: '' @ name)))"

definition formattedErrors :: "ZodIssue list \<Rightarrow> FormattedError list" where
  "formattedErrors errors =
    map (\<lambda>err. \<lparr>formatted_path = issue_path err, formatted_message = issue_message err,
                formatted_code = ''VALIDATION_ERROR''\<rparr>) errors"

text \<open>What the \<open>catch\<close> block returns for the value caught.\<close>

fun error_result :: "exn \<Rightarrow> CallToolResult" where
  "error_result (ZodError errors) =
    \<lparr>result_content = Some [ErrorText ''VALIDATION_ERROR'' ''Invalid request parameters''
                               (Some (formattedErrors errors))],
     result_metadata_error = Some True, result_error = None\<rparr>"
| "error_result (ResponseError message status data) =
    \<lparr>result_content = None, result_metadata_error = None,
     result_error = Some \<lparr>api_code = ''linear_api_error'', api_message = message,
                          api_status = status, api_data = data\<rparr>\<rparr>"
| "error_result (Error message) =
    \<lparr>result_content = Some [ErrorText ''UNKNOWN_ERROR'' message None],
     result_metadata_error = Some True, result_error = None\<rparr>"
| "error_result (NonError shown) =
    \<lparr>result_content = Some [ErrorText ''UNKNOWN_ERROR'' shown None],
     result_metadata_error = Some True, result_error = None\<rparr>"

text \<open>The handler of \<open>CallToolRequestSchema\<close>: the \<open>try\<close> block and its \<open>catch\<close>.\<close>

definition callTool ::
  "LinearClient \<Rightarrow> string \<Rightarrow> (string \<rightharpoonup> json) option \<Rightarrow> CallToolResult task" where
  "callTool linearClient name arguments =
    task_bind (callTool_try linearClient name arguments) (\<lambda>outcome.
      case outcome of
        Inr result \<Rightarrow> task_return result
      | Inl error \<Rightarrow>
          task_bind (console_error (LogError ''Error executing tool:'' error)) (\<lambda>_.
          task_return (error_result error)))"


section \<open>Properties\<close>

text \<open>
  \<open>appends s s'\<close>: the run from \<open>s\<close> to \<open>s'\<close> only added calls and wrote nothing to the
  error log.
\<close>

definition appends :: "effects \<Rightarrow> effects \<Rightarrow> bool" where
  "appends s s' = (take (length (calls s)) (calls s') = calls s \<and> stderr s' = stderr s)"

text \<open>A small tracker with one user, one team and one issue, to run the adapter on.\<close>

definition demo_issue :: Issue where
  "demo_issue = \<lparr>issue_id = ''i1'', issue_identifier = ''ENG-1'', issue_title = ''Fix login'',
     issue_description = None, issue_priority = 2, issue_estimate = None,
     issue_url = ''https://linear.app/i1''\<rparr>"

text \<open>What \<open>searchIssues\<close> makes of that issue.\<close>

definition demo_summary :: IssueSummary where
  "demo_summary = \<lparr>sum_id = ''i1'', sum_identifier = ''ENG-1'',
      sum_title = ''Fix login'', sum_description = None, sum_priority = 2, sum_estimate = None,
      sum_status = Some ''Backlog'', sum_assignee = Some ''Ada'', sum_team = None,
      sum_labels = Some [], sum_url = ''https://linear.app/i1''\<rparr>"

definition demo_user :: User where
  "demo_user = \<lparr>user_id = ''u1'', user_name = ''Ada'', user_email = ''ada@example.com'',
     user_admin = False, user_active = True\<rparr>"

definition demo_team :: Team where
  "demo_team = \<lparr>team_id = ''t1'', team_name = ''Engineering'', team_key = ''ENG''\<rparr>"

definition demo_organization :: Organization where
  "demo_organization = \<lparr>organization_id = ''o1'', organization_name = ''Acme'',
     organization_urlKey = ''acme''\<rparr>"

definition demo_client :: LinearClient where
  "demo_client =
    \<lparr>issueConnection = (\<lambda>h. Inr (Some [demo_issue])),
     issueFetch = (\<lambda>h. Inr (Some demo_issue)),
     issueMutation = (\<lambda>h. Inr ()),
     userFetch = (\<lambda>h. Inr (Some demo_user)),
     userConnection = (\<lambda>h. Inr [demo_user]),
     teamFetch = (\<lambda>h. Inr (Some demo_team)),
     teamConnection = (\<lambda>h. Inr [demo_team]),
     workflowStateFetch = (\<lambda>h. Inr (Some \<lparr>state_id = ''s1'', state_name = ''Backlog''\<rparr>)),
     issueLabelConnection = (\<lambda>h. Inr (Some [])),
     organizationFetch = (\<lambda>h. Inr (Some demo_organization)),
     commentMutation = (\<lambda>h. Inr ()),
     commentFetch = (\<lambda>h. Inr (Some \<lparr>comment_id = ''c1'', comment_url = ''https://linear.app/c1''\<rparr>))\<rparr>"

definition start :: effects where
  "start = \<lparr>calls = [], stderr = [], unhandled = []\<rparr>"


text \<open>\<open>quiet m\<close>: from every state, \<open>m\<close> only adds calls.\<close>

definition quiet :: "'a task \<Rightarrow> bool" where
  "quiet m = (\<forall>s. appends s (snd (m s)))"

text \<open>The issues a parse reports: none when it succeeds.\<close>

definition issues_of :: "'a parsed \<Rightarrow> ZodIssue list" where
  "issues_of p = (case p of Inl issues \<Rightarrow> issues | Inr x \<Rightarrow> [])"

definition failing_viewer_client :: LinearClient where
  "failing_viewer_client = demo_client\<lparr>userFetch := (\<lambda>h. Inl (Error ''Authentication required''))\<rparr>"

definition missing_viewer_client :: LinearClient where
  "missing_viewer_client = demo_client\<lparr>userFetch := (\<lambda>h. Inr None)\<rparr>"

definition rate_limited_client :: LinearClient where
  "rate_limited_client =
    demo_client\<lparr>workflowStateFetch := (\<lambda>h. Inl (Error ''Rate limited'')),
                userFetch := (\<lambda>h. Inl (Error ''Rate limited''))\<rparr>"

text \<open>\<open>handled m\<close>: from every state, \<open>m\<close> leaves no further rejection unhandled.\<close>

definition handled :: "'a task \<Rightarrow> bool" where
  "handled m = (\<forall>s. unhandled (snd (m s)) = unhandled s)"

subsection \<open>Running a computation\<close>

lemma appendsE: "appends s s' \<Longrightarrow> \<exists>ops. calls s' = calls s @ ops"
  unfolding appends_def by (metis append_take_drop_id)

lemma appends_refl: "appends s s"
  by (simp add: appends_def)

lemma appends_trans:
  assumes a: "appends s s'" and b: "appends s' s''"
  shows "appends s s''"
proof -
  from appendsE[OF a] obtain o1 where o1: "calls s' = calls s @ o1" by blast
  from appendsE[OF b] obtain o2 where o2: "calls s'' = calls s' @ o2" by blast
  show ?thesis using a b o1 o2 by (simp add: appends_def)
qed

lemma quietD: "quiet m \<Longrightarrow> appends s (snd (m s))"
  by (simp add: quiet_def)

lemma quiet_task_return: "quiet (task_return x)"
  by (simp add: quiet_def task_return_def appends_refl)

lemma quiet_io_return: "quiet (io_return x)"
  by (simp add: io_return_def quiet_task_return)

lemma quiet_io_throw: "quiet (io_throw e)"
  by (simp add: io_throw_def quiet_task_return)

lemma quiet_request: "quiet (request a op)"
  by (simp add: quiet_def request_def appends_def)

lemma quiet_task_bind:
  assumes "quiet m" and "\<And>x. quiet (f x)"
  shows "quiet (task_bind m f)"
  unfolding quiet_def
proof
  fix s
  obtain r s1 where m: "m s = (r, s1)" by (cases "m s")
  have "appends s s1" using quietD[OF assms(1), of s] m by simp
  moreover have "appends s1 (snd (f r s1))" by (rule quietD[OF assms(2)])
  ultimately show "appends s (snd (task_bind m f s))"
    using m by (simp add: task_bind_def appends_trans)
qed

lemma quiet_io_bind:
  assumes "quiet m" and "\<And>x. quiet (f x)"
  shows "quiet (io_bind m f)"
  unfolding io_bind_def
  by (rule quiet_task_bind[OF assms(1)]) (simp add: quiet_io_throw assms(2) split: sum.splits)

lemma quiet_defined: "quiet (defined prop v)"
  by (simp add: defined_def quiet_io_throw quiet_io_return split: option.splits)

lemma quiet_for_each:
  assumes "\<And>n. quiet (f n)"
  shows "quiet (for_each f ns)"
  by (induction ns) (auto intro!: quiet_task_return quiet_task_bind assms)

lemma quiet_promise_all:
  assumes "\<And>n. quiet (f n)"
  shows "quiet (promise_all f ns)"
  unfolding promise_all_def
  by (intro quiet_task_bind quiet_for_each assms quiet_task_return)

lemmas run_defs = io_bind_def task_bind_def io_throw_def io_return_def task_return_def
  request_def io_catch_def console_error_def defined_def

lemmas quiet_intros = quiet_task_return quiet_io_return quiet_io_throw quiet_request
  quiet_task_bind quiet_io_bind quiet_defined quiet_promise_all

lemma io_bind_request:
  "io_bind (request a op) f s =
    (case a (calls s @ [op]) of
       Inl e \<Rightarrow> (Inl e, s\<lparr>calls := calls s @ [op]\<rparr>)
     | Inr x \<Rightarrow> f x (s\<lparr>calls := calls s @ [op]\<rparr>))"
  by (simp add: io_bind_def task_bind_def request_def io_throw_def task_return_def
      split: sum.splits)

lemma io_bind_defined_Some: "io_bind (defined prop (Some x)) f = f x"
  by (simp add: io_bind_def task_bind_def defined_def io_return_def task_return_def)

lemma io_bind_result:
  "io_bind m f s = (case m s of (Inl e, s') \<Rightarrow> (Inl e, s') | (Inr x, s') \<Rightarrow> f x s')"
  by (simp add: io_bind_def task_bind_def io_throw_def task_return_def
      split: prod.splits sum.splits)

lemma io_bind_Inr: "m s = (Inr x, s') \<Longrightarrow> io_bind m f s = f x s'"
  by (simp add: io_bind_def task_bind_def)

lemma io_bind_return_snd: "snd (io_bind m (\<lambda>x. io_return (g x)) s) = snd (m s)"
  by (simp add: io_bind_result io_return_def task_return_def split: prod.splits sum.splits)

lemma request_then_calls:
  assumes "\<And>x. quiet (k x)"
  shows "\<exists>ops. calls (snd (io_bind (request a op) k s)) = calls s @ op # ops"
proof -
  let ?s1 = "s\<lparr>calls := calls s @ [op]\<rparr>"
  have "appends ?s1 (snd (io_bind (request a op) k s))"
    using quietD[OF assms, of ?s1]
    by (simp add: io_bind_request appends_refl split: sum.splits)
  from appendsE[OF this] show ?thesis by simp
qed

subsection \<open>The adapter only adds calls\<close>

lemma quiet_searchIssues_item: "quiet (searchIssues_item client issue)"
  unfolding searchIssues_item_def by (intro quiet_intros)

lemma quiet_searchIssues: "quiet (searchIssues client args)"
  unfolding searchIssues_def by (intro quiet_intros quiet_searchIssues_item)

lemma quiet_abandon: "quiet (abandon rejections)"
  by (simp add: quiet_def abandon_def appends_def)

lemma quiet_await_then:
  assumes "\<And>x. quiet (f x)"
  shows "quiet (await_then promise pending f)"
  unfolding await_then_def
  by (cases promise) (auto intro!: quiet_task_bind quiet_abandon quiet_io_throw assms)

lemma quiet_getIssueDetails: "quiet (getIssueDetails client issue)"
  unfolding getIssueDetails_def by (intro quiet_intros quiet_await_then)

lemma quiet_listIssues_item: "quiet (listIssues_item client issue)"
  unfolding listIssues_item_def by (intro quiet_intros quiet_getIssueDetails)

lemma quiet_listIssues: "quiet (listIssues client)"
  unfolding listIssues_def by (intro quiet_intros quiet_listIssues_item)

lemma quiet_getViewer: "quiet (getViewer client)"
  unfolding getViewer_def by (intro quiet_intros)

lemma quiet_getUserIssues_item: "quiet (getUserIssues_item client issue)"
  unfolding getUserIssues_item_def by (intro quiet_intros)

lemma quiet_getUserIssues_nodes:
  "quiet (case result of None \<Rightarrow> io_return []
          | Some nodes \<Rightarrow> promise_all (getUserIssues_item client) nodes)"
  by (simp add: quiet_intros quiet_getUserIssues_item split: option.splits)

subsection \<open>Rejections that nothing handles\<close>

lemma handledD: "handled m \<Longrightarrow> unhandled (snd (m s)) = unhandled s"
  by (simp add: handled_def)

lemma handled_task_return: "handled (task_return x)"
  by (simp add: handled_def task_return_def)

lemma handled_io_return: "handled (io_return x)"
  by (simp add: io_return_def handled_task_return)

lemma handled_io_throw: "handled (io_throw e)"
  by (simp add: io_throw_def handled_task_return)

lemma handled_request: "handled (request a op)"
  by (simp add: handled_def request_def)

lemma handled_console_error: "handled (console_error l)"
  by (simp add: handled_def console_error_def)

lemma handled_task_bind:
  assumes "handled m" and "\<And>x. handled (f x)"
  shows "handled (task_bind m f)"
  unfolding handled_def
proof
  fix s
  obtain r s1 where m: "m s = (r, s1)" by (cases "m s")
  have "unhandled s1 = unhandled s" using handledD[OF assms(1), of s] m by simp
  moreover have "unhandled (snd (f r s1)) = unhandled s1" by (rule handledD[OF assms(2)])
  ultimately show "unhandled (snd (task_bind m f s)) = unhandled s"
    using m by (simp add: task_bind_def)
qed

lemma handled_io_bind:
  assumes "handled m" and "\<And>x. handled (f x)"
  shows "handled (io_bind m f)"
  unfolding io_bind_def
  by (rule handled_task_bind[OF assms(1)]) (simp add: handled_io_throw assms(2) split: sum.splits)

lemma handled_io_catch:
  assumes "handled m" and "\<And>e. handled (h e)"
  shows "handled (io_catch m h)"
  unfolding io_catch_def
  by (rule handled_task_bind[OF assms(1)]) (simp add: handled_io_return assms(2) split: sum.splits)

lemma handled_defined: "handled (defined prop v)"
  by (simp add: defined_def handled_io_throw handled_io_return split: option.splits)

lemma handled_for_each:
  assumes "\<And>n. handled (f n)"
  shows "handled (for_each f ns)"
  by (induction ns) (auto intro!: handled_task_return handled_task_bind assms)

lemma handled_promise_all:
  assumes "\<And>n. handled (f n)"
  shows "handled (promise_all f ns)"
  unfolding promise_all_def
  by (intro handled_task_bind handled_for_each assms handled_task_return)

lemma handled_parse: "handled (parse p)"
  by (simp add: parse_def handled_io_throw handled_io_return split: sum.splits)

lemmas handled_intros = handled_task_return handled_io_return handled_io_throw handled_request
  handled_console_error handled_task_bind handled_io_bind handled_io_catch handled_defined
  handled_promise_all handled_parse

lemma handled_createIssue: "handled (createIssue client args)"
  unfolding createIssue_def
  by (intro handled_intros) (simp add: handled_intros split: option.splits)

lemma handled_updateIssue: "handled (updateIssue client args)"
  unfolding updateIssue_def
  by (intro handled_intros) (auto intro!: handled_intros split: option.splits)

lemma handled_searchIssues: "handled (searchIssues client args)"
  unfolding searchIssues_def searchIssues_item_def by (intro handled_intros)

lemma handled_getUserIssues: "handled (getUserIssues client args)"
  unfolding getUserIssues_def getUserIssues_try_def getUserIssues_item_def
  by (intro handled_intros) (auto intro!: handled_intros split: option.splits)

lemma handled_addComment: "handled (addComment client args)"
  unfolding addComment_def
  by (intro handled_intros) (auto intro!: handled_intros split: option.splits)

lemma handled_callTool_try: "handled (callTool_try client name arguments)"
  unfolding callTool_try_def
  by (cases arguments)
     (auto intro!: handled_intros handled_createIssue handled_updateIssue handled_searchIssues
        handled_getUserIssues handled_addComment)

lemma handled_callTool: "handled (callTool client name arguments)"
  unfolding callTool_def
  by (intro handled_task_bind handled_callTool_try)
     (auto intro!: handled_intros split: sum.splits)

subsection \<open>Searching\<close>

lemma searchIssues_calls:
  "\<exists>ops. calls (snd (searchIssues client args s)) =
     calls s @ OpIssues \<lparr>vars_filter = Some (buildSearchFilter args),
                 vars_first = Some (number_or (search_limit args) 10),
                 vars_orderBy = None,
                 vars_includeArchived = search_includeArchived args\<rparr> # ops"
  unfolding searchIssues_def
  by (intro request_then_calls quiet_intros quiet_searchIssues_item)

lemma buildSearchFilter_no_search: "buildSearchFilter no_search = empty_filter"
  by (simp add: buildSearchFilter_def no_search_def)


lemma buildSearchFilter_clauses:
  "buildSearchFilter args =
      \<lparr>filter_or = (case search_query args of None \<Rightarrow> None
           | Some q \<Rightarrow> if q = [] then None else Some [Title (Contains q), Description (Contains q)]),
       filter_team_id = (case search_teamId args of None \<Rightarrow> None
           | Some t \<Rightarrow> if t = [] then None else Some (Eq t)),
       filter_state_name = (case search_status args of None \<Rightarrow> None
           | Some st \<Rightarrow> if st = [] then None else Some (Eq st)),
       filter_assignee_id = (case search_assigneeId args of None \<Rightarrow> None
           | Some a \<Rightarrow> if a = [] then None else Some (Eq a)),
       filter_labels_some_name = (case search_labels args of None \<Rightarrow> None
           | Some ls \<Rightarrow> if ls = [] then None else Some (In ls)),
       filter_priority = (case search_priority args of None \<Rightarrow> None
           | Some p \<Rightarrow> if truthy_priority p then Some (PEq p) else None),
       filter_estimate = (case search_estimate args of None \<Rightarrow> None
           | Some e \<Rightarrow> if e = 0 then None else Some (NEq e))\<rparr>"
  by (simp add: buildSearchFilter_def empty_filter_def Let_def split: option.splits)

lemma searchIssues_no_search:
  "\<exists>ops. calls (snd (searchIssues client no_search s)) =
          calls s @ OpIssues \<lparr>vars_filter = Some empty_filter, vars_first = Some 10,
                       vars_orderBy = None, vars_includeArchived = None\<rparr> # ops"
  using searchIssues_calls[of client no_search s]
  by (simp add: buildSearchFilter_no_search) (simp add: no_search_def number_or_def)

text \<open>
  C1: \<open>buildSearchFilter\<close> puts into the filter a clause for each field that is supplied
  and not empty (\<open>buildSearchFilter_clauses\<close> gives every clause), and
  \<open>searchIssues({})\<close> sends the empty filter and asks for the first 10 issues
  (\<open>searchIssues_no_search\<close>). But a priority that is present does not always appear as
  an equality clause: the priority 0, which is the priority "none", and likewise the
  estimate 0, fails the truthiness test, and the search is sent with the empty filter.
\<close>

theorem buildSearchFilter_drops_zero:
  "search_priority (no_search\<lparr>search_priority := Some (Num 0), search_estimate := Some 0\<rparr>) =
     Some (Num 0)
   \<and> search_estimate (no_search\<lparr>search_priority := Some (Num 0), search_estimate := Some 0\<rparr>) =
     Some 0
   \<and> buildSearchFilter (no_search\<lparr>search_priority := Some (Num 0), search_estimate := Some 0\<rparr>) =
     empty_filter
   \<and> filter_priority empty_filter = None
   \<and> filter_estimate empty_filter = None
   \<and> (\<exists>ops. calls (snd (searchIssues client
          (no_search\<lparr>search_priority := Some (Num 0), search_estimate := Some 0\<rparr>) s)) =
        calls s @ OpIssues \<lparr>vars_filter = Some empty_filter, vars_first = Some 10,
                     vars_orderBy = None, vars_includeArchived = None\<rparr> # ops)"
proof -
  have f: "buildSearchFilter (no_search\<lparr>search_priority := Some (Num 0), search_estimate := Some 0\<rparr>) =
     empty_filter"
    by (simp add: buildSearchFilter_def no_search_def)
  have c: "\<exists>ops. calls (snd (searchIssues client
          (no_search\<lparr>search_priority := Some (Num 0), search_estimate := Some 0\<rparr>) s)) =
        calls s @ OpIssues \<lparr>vars_filter = Some empty_filter, vars_first = Some 10,
                     vars_orderBy = None, vars_includeArchived = None\<rparr> # ops"
    using searchIssues_calls[of client
        "no_search\<lparr>search_priority := Some (Num 0), search_estimate := Some 0\<rparr>" s]
    by (simp add: f) (simp add: no_search_def number_or_def)
  from f c show ?thesis by (simp add: no_search_def empty_filter_def)
qed

subsection \<open>Creating and updating\<close>

text \<open>
  C4: \<open>createIssue\<close> and \<open>updateIssue\<close> pass the status they are given to the tracker
  unchanged, as \<open>stateId\<close>. The first call of \<open>createIssue\<close> is the creation itself, with
  \<open>stateId\<close> the status of the arguments, and nothing follows it but the read of the
  created issue. \<open>updateIssue\<close> fetches the issue by its id and, when it is found, its
  next call is the update with \<open>stateId\<close> the status of the arguments, followed by
  nothing but the read of the updated issue; when the issue is not found the fetch is
  its only call. No call looks a workflow state up.
\<close>

theorem status_passed_as_stateId:
  "(\<exists>ops. calls (snd (createIssue client cargs s)) =
       calls s @ OpCreateIssue \<lparr>input_title = create_title cargs, input_teamId = create_teamId cargs,
         input_description = create_description cargs, input_priority = create_priority cargs,
         input_stateId = create_status cargs\<rparr> # ops
       \<and> set ops \<subseteq> {OpCreatedIssue})
   \<and> (case issueFetch client (calls s @ [OpIssue (update_id uargs)]) of
        Inr (Some issue) \<Rightarrow>
          (\<exists>ops. calls (snd (updateIssue client uargs s)) =
             calls s @ OpIssue (update_id uargs) #
               OpIssueUpdate (issue_id issue)
                 \<lparr>upd_title = update_title uargs, upd_description = update_description uargs,
                  upd_priority = update_priority uargs, upd_stateId = update_status uargs\<rparr> # ops
             \<and> set ops \<subseteq> {OpUpdatedIssue (issue_id issue)})
      | _ \<Rightarrow> calls (snd (updateIssue client uargs s)) = calls s @ [OpIssue (update_id uargs)])"
proof (rule conjI)
  show "\<exists>ops. calls (snd (createIssue client cargs s)) =
       calls s @ OpCreateIssue \<lparr>input_title = create_title cargs, input_teamId = create_teamId cargs,
         input_description = create_description cargs, input_priority = create_priority cargs,
         input_stateId = create_status cargs\<rparr> # ops
       \<and> set ops \<subseteq> {OpCreatedIssue}"
    by (auto simp: createIssue_def run_defs split: sum.splits option.splits)
next
  show "case issueFetch client (calls s @ [OpIssue (update_id uargs)]) of
        Inr (Some issue) \<Rightarrow>
          (\<exists>ops. calls (snd (updateIssue client uargs s)) =
             calls s @ OpIssue (update_id uargs) #
               OpIssueUpdate (issue_id issue)
                 \<lparr>upd_title = update_title uargs, upd_description = update_description uargs,
                  upd_priority = update_priority uargs, upd_stateId = update_status uargs\<rparr> # ops
             \<and> set ops \<subseteq> {OpUpdatedIssue (issue_id issue)})
      | _ \<Rightarrow> calls (snd (updateIssue client uargs s)) = calls s @ [OpIssue (update_id uargs)]"
    by (auto simp: updateIssue_def run_defs split: sum.splits option.splits)
qed

theorem status_passed_as_stateId_witness:
  "\<exists>ops. calls (snd (createIssue demo_client
       \<lparr>create_title = ''T'', create_teamId = ''X'', create_description = None,
        create_priority = None, create_status = Some ''In Progress''\<rparr> start)) =
       calls start @ OpCreateIssue \<lparr>input_title = ''T'', input_teamId = ''X'',
         input_description = None, input_priority = None,
         input_stateId = Some ''In Progress''\<rparr> # ops"
  using status_passed_as_stateId[of demo_client
       "\<lparr>create_title = ''T'', create_teamId = ''X'', create_description = None,
        create_priority = None, create_status = Some ''In Progress''\<rparr>" start
       "\<lparr>update_id = ''i1'', update_title = None, update_description = None,
        update_priority = None, update_status = Some ''Done''\<rparr>"]
  by auto


subsection \<open>User issues\<close>

lemma getUserIssues_try_unfold:
  "getUserIssues_try client args =
    io_bind (request (userFetch client)
       (case get_userId args of None \<Rightarrow> OpViewer
        | Some u \<Rightarrow> if u = [] then OpViewer else OpUser u)) (\<lambda>resolved.
    io_bind (defined ''assignedIssues'' resolved) (\<lambda>user.
    io_bind (request (issueConnection client)
      (OpUserAssignedIssues (user_id user)
         \<lparr>vars_filter = None,
          vars_first = Some (case get_limit args of None \<Rightarrow> 50
                             | Some l \<Rightarrow> if l = 0 then 50 else l),
          vars_orderBy = None, vars_includeArchived = get_includeArchived args\<rparr>)) (\<lambda>result.
    case result of
      None \<Rightarrow> io_return []
    | Some nodes \<Rightarrow> promise_all (getUserIssues_item client) nodes)))"
  by (simp add: getUserIssues_try_def string_or_null_def number_or_def split: option.splits)

lemma quiet_getUserIssues_try: "quiet (getUserIssues_try client args)"
  unfolding getUserIssues_try_unfold
  by (intro quiet_intros quiet_getUserIssues_nodes)

lemma getUserIssues_apply:
  "getUserIssues client args s =
    (case getUserIssues_try client args s of
       (Inl e, s') \<Rightarrow> (Inl e, s'\<lparr>stderr := stderr s' @ [LogError ''Error in getUserIssues: '' e]\<rparr>)
     | (Inr issues, s') \<Rightarrow> (Inr issues, s'))"
  by (simp add: getUserIssues_def io_catch_def task_bind_def console_error_def io_throw_def
      io_return_def task_return_def split: prod.splits sum.splits)

lemma getUserIssues_calls:
  "calls (snd (getUserIssues client args s)) = calls (snd (getUserIssues_try client args s))"
  by (simp add: getUserIssues_apply split: prod.splits sum.splits)

lemma io_bind_defined_None: "io_bind (defined prop None) f s = (Inl (TypeError prop), s)"
  by (simp add: io_bind_def task_bind_def defined_def io_throw_def task_return_def)

text \<open>
  C6, as stated, fails: with \<open>userId: ""\<close> supplied the viewer is resolved, not the user
  of that id, and with \<open>limit: 0\<close> supplied the tracker is asked for 50 issues.
\<close>

theorem getUserIssues_empty_userId_counterexample:
  "calls (snd (getUserIssues demo_client
      \<lparr>get_userId = Some [], get_includeArchived = None, get_limit = Some 0\<rparr> start)) =
    [OpViewer,
     OpUserAssignedIssues ''u1'' \<lparr>vars_filter = None, vars_first = Some 50, vars_orderBy = None,
       vars_includeArchived = None\<rparr>,
     OpIssueState ''i1'']"
  by (simp add: getUserIssues_def getUserIssues_try_def getUserIssues_item_def promise_all_def
      run_defs string_or_null_def number_or_def demo_client_def demo_user_def demo_issue_def
      start_def)


text \<open>
  C6, amended: \<open>getUserIssues\<close> resolves the user by the supplied userId when it is a
  non-empty string, and the authenticated viewer when it is absent or empty; it asks
  for that user's assigned issues, capped at the supplied limit when that is not 0 and
  at 50 when the limit is absent or 0. When the resolution rejects, when it yields no
  user at all, or when the fetch of the issues rejects, \<open>getUserIssues\<close> makes no further
  call, writes the error to the error log and throws it; whenever it fails the error
  has been logged, and it returns a list only when a user was resolved.
\<close>

theorem getUserIssues_resolution:
  "(\<exists>ops. calls (snd (getUserIssues client args s)) =
      calls s @ (case get_userId args of None \<Rightarrow> OpViewer
                 | Some u \<Rightarrow> if u = [] then OpViewer else OpUser u) # ops)
   \<and> (userFetch client (calls s @ [case get_userId args of None \<Rightarrow> OpViewer
                 | Some u \<Rightarrow> if u = [] then OpViewer else OpUser u]) = Inr (Some user) \<longrightarrow>
       (\<exists>ops. calls (snd (getUserIssues client args s)) =
          calls s @ (case get_userId args of None \<Rightarrow> OpViewer
                     | Some u \<Rightarrow> if u = [] then OpViewer else OpUser u) #
            OpUserAssignedIssues (user_id user)
              \<lparr>vars_filter = None,
               vars_first = Some (case get_limit args of None \<Rightarrow> 50
                                  | Some l \<Rightarrow> if l = 0 then 50 else l),
               vars_orderBy = None, vars_includeArchived = get_includeArchived args\<rparr> # ops))
   \<and> (userFetch client (calls s @ [case get_userId args of None \<Rightarrow> OpViewer
                 | Some u \<Rightarrow> if u = [] then OpViewer else OpUser u]) = Inl e \<longrightarrow>
       getUserIssues client args s =
         (Inl e,
          s\<lparr>calls := calls s @ [case get_userId args of None \<Rightarrow> OpViewer
                 | Some u \<Rightarrow> if u = [] then OpViewer else OpUser u],
            stderr := stderr s @ [LogError ''Error in getUserIssues: '' e]\<rparr>))
   \<and> (userFetch client (calls s @ [case get_userId args of None \<Rightarrow> OpViewer
                 | Some u \<Rightarrow> if u = [] then OpViewer else OpUser u]) = Inr None \<longrightarrow>
       getUserIssues client args s =
         (Inl (Error ''Cannot read properties of undefined (reading 'assignedIssues')''),
          s\<lparr>calls := calls s @ [case get_userId args of None \<Rightarrow> OpViewer
                 | Some u \<Rightarrow> if u = [] then OpViewer else OpUser u],
            stderr := stderr s @ [LogError ''Error in getUserIssues: ''
              (Error ''Cannot read properties of undefined (reading 'assignedIssues')'')]\<rparr>))
   \<and> (userFetch client (calls s @ [case get_userId args of None \<Rightarrow> OpViewer
                 | Some u \<Rightarrow> if u = [] then OpViewer else OpUser u]) = Inr (Some user) \<and>
       issueConnection client (calls s @ [case get_userId args of None \<Rightarrow> OpViewer
                 | Some u \<Rightarrow> if u = [] then OpViewer else OpUser u,
            OpUserAssignedIssues (user_id user)
              \<lparr>vars_filter = None,
               vars_first = Some (case get_limit args of None \<Rightarrow> 50
                                  | Some l \<Rightarrow> if l = 0 then 50 else l),
               vars_orderBy = None, vars_includeArchived = get_includeArchived args\<rparr>]) = Inl e \<longrightarrow>
       getUserIssues client args s =
         (Inl e,
          s\<lparr>calls := calls s @ [case get_userId args of None \<Rightarrow> OpViewer
                 | Some u \<Rightarrow> if u = [] then OpViewer else OpUser u,
            OpUserAssignedIssues (user_id user)
              \<lparr>vars_filter = None,
               vars_first = Some (case get_limit args of None \<Rightarrow> 50
                                  | Some l \<Rightarrow> if l = 0 then 50 else l),
               vars_orderBy = None, vars_includeArchived = get_includeArchived args\<rparr>],
            stderr := stderr s @ [LogError ''Error in getUserIssues: '' e]\<rparr>))
   \<and> (fst (getUserIssues client args s) = Inl e \<longrightarrow>
       stderr (snd (getUserIssues client args s)) =
         stderr s @ [LogError ''Error in getUserIssues: '' e])
   \<and> (fst (getUserIssues client args s) = Inr issues \<longrightarrow>
       (\<exists>user. userFetch client (calls s @ [case get_userId args of None \<Rightarrow> OpViewer
                 | Some u \<Rightarrow> if u = [] then OpViewer else OpUser u]) = Inr (Some user)))"
proof -
  define op where "op = (case get_userId args of None \<Rightarrow> OpViewer
                 | Some u \<Rightarrow> if u = [] then OpViewer else OpUser u)"
  define vars where "vars = \<lparr>vars_filter = None,
               vars_first = Some (case get_limit args of None \<Rightarrow> 50
                                  | Some l \<Rightarrow> if l = 0 then (50::rat) else l),
               vars_orderBy = None, vars_includeArchived = get_includeArchived args\<rparr>"
  define K where "K = (\<lambda>result. case result of
      None \<Rightarrow> io_return []
    | Some nodes \<Rightarrow> promise_all (getUserIssues_item client) nodes)"
  define rest where "rest = (\<lambda>user::User. io_bind (request (issueConnection client)
      (OpUserAssignedIssues (user_id user) vars)) K)"
  have qK: "quiet (K result)" for result
    unfolding K_def by (rule quiet_getUserIssues_nodes)
  have unf: "getUserIssues_try client args =
    io_bind (request (userFetch client) op) (\<lambda>resolved.
    io_bind (defined ''assignedIssues'' resolved) rest)"
    unfolding getUserIssues_try_unfold op_def vars_def rest_def K_def ..
  have a: "\<exists>ops. calls (snd (getUserIssues client args s)) = calls s @ op # ops"
    unfolding getUserIssues_calls unf rest_def
    by (intro request_then_calls quiet_intros qK)
  have b: "\<exists>ops. calls (snd (getUserIssues client args s)) =
          calls s @ op # OpUserAssignedIssues (user_id user) vars # ops"
    if u: "userFetch client (calls s @ [op]) = Inr (Some user)"
  proof -
    let ?s1 = "s\<lparr>calls := calls s @ [op]\<rparr>"
    have "getUserIssues_try client args s = rest user ?s1"
      unfolding unf using u by (simp add: io_bind_request io_bind_defined_Some)
    moreover have "\<exists>ops. calls (snd (rest user ?s1)) =
        calls ?s1 @ OpUserAssignedIssues (user_id user) vars # ops"
      unfolding rest_def by (intro request_then_calls qK)
    ultimately show ?thesis unfolding getUserIssues_calls by simp
  qed
  have c: "getUserIssues client args s =
         (Inl x, s\<lparr>calls := calls s @ [op],
                   stderr := stderr s @ [LogError ''Error in getUserIssues: '' x]\<rparr>)"
    if u: "userFetch client (calls s @ [op]) = Inl x" for x
    unfolding getUserIssues_apply unf using u by (simp add: io_bind_request)
  have m: "getUserIssues client args s =
         (Inl (Error ''Cannot read properties of undefined (reading 'assignedIssues')''),
          s\<lparr>calls := calls s @ [op],
            stderr := stderr s @ [LogError ''Error in getUserIssues: ''
              (Error ''Cannot read properties of undefined (reading 'assignedIssues')'')]\<rparr>)"
    if u: "userFetch client (calls s @ [op]) = Inr None"
    unfolding getUserIssues_apply unf using u
    by (simp add: io_bind_request io_bind_defined_None TypeError_def)
  have d: "getUserIssues client args s =
         (Inl e, s\<lparr>calls := calls s @ [op, OpUserAssignedIssues (user_id user) vars],
                   stderr := stderr s @ [LogError ''Error in getUserIssues: '' e]\<rparr>)"
    if u: "userFetch client (calls s @ [op]) = Inr (Some user)"
      and f: "issueConnection client (calls s @ [op, OpUserAssignedIssues (user_id user) vars]) = Inl e"
    unfolding getUserIssues_apply unf rest_def using u f
    by (simp add: io_bind_request io_bind_defined_Some)
  have e: "stderr (snd (getUserIssues client args s)) =
         stderr s @ [LogError ''Error in getUserIssues: '' e]"
    if "fst (getUserIssues client args s) = Inl e"
  proof -
    obtain r s' where t: "getUserIssues_try client args s = (r, s')"
      by (cases "getUserIssues_try client args s")
    have "stderr s' = stderr s"
      using quietD[OF quiet_getUserIssues_try, of s client args] t by (simp add: appends_def)
    then show ?thesis using that t
      by (auto simp: getUserIssues_apply split: sum.splits)
  qed
  have g: "\<exists>user. userFetch client (calls s @ [op]) = Inr (Some user)"
    if "fst (getUserIssues client args s) = Inr issues"
  proof (cases "userFetch client (calls s @ [op])")
    case (Inl x)
    with c[of x] that show ?thesis by simp
  next
    case (Inr v)
    show ?thesis
    proof (cases v)
      case None
      with Inr m that show ?thesis by simp
    next
      case (Some user)
      with Inr show ?thesis by simp
    qed
  qed
  from a b c m d e g show ?thesis unfolding op_def vars_def by blast
qed

theorem getUserIssues_resolution_witness:
  "getUserIssues failing_viewer_client
      \<lparr>get_userId = None, get_includeArchived = None, get_limit = None\<rparr> start =
     (Inl (Error ''Authentication required''),
      \<lparr>calls = [OpViewer],
       stderr = [LogError ''Error in getUserIssues: '' (Error ''Authentication required'')],
       unhandled = []\<rparr>)
   \<and> getUserIssues missing_viewer_client
      \<lparr>get_userId = None, get_includeArchived = None, get_limit = None\<rparr> start =
     (Inl (Error ''Cannot read properties of undefined (reading 'assignedIssues')''),
      \<lparr>calls = [OpViewer],
       stderr = [LogError ''Error in getUserIssues: ''
         (Error ''Cannot read properties of undefined (reading 'assignedIssues')'')],
       unhandled = []\<rparr>)
   \<and> (\<exists>ops. calls (snd (getUserIssues demo_client
      \<lparr>get_userId = Some ''u7'', get_includeArchived = None, get_limit = Some 5\<rparr> start)) =
      OpUser ''u7'' # OpUserAssignedIssues ''u1'' \<lparr>vars_filter = None, vars_first = Some 5,
         vars_orderBy = None, vars_includeArchived = None\<rparr> # ops)"
proof -
  have 1: "userFetch failing_viewer_client h = Inl (Error ''Authentication required'')" for h
    by (simp add: failing_viewer_client_def)
  have 2: "userFetch demo_client h = Inr (Some demo_user)" for h
    by (simp add: demo_client_def)
  have 3: "user_id demo_user = ''u1''" by (simp add: demo_user_def)
  have 4: "userFetch missing_viewer_client h = Inr None" for h
    by (simp add: missing_viewer_client_def)
  have a: "getUserIssues failing_viewer_client
      \<lparr>get_userId = None, get_includeArchived = None, get_limit = None\<rparr> start =
     (Inl (Error ''Authentication required''),
      \<lparr>calls = [OpViewer],
       stderr = [LogError ''Error in getUserIssues: '' (Error ''Authentication required'')],
       unhandled = []\<rparr>)"
    using getUserIssues_resolution[of failing_viewer_client
      "\<lparr>get_userId = None, get_includeArchived = None, get_limit = None\<rparr>" start demo_user
      "Error ''Authentication required''" "[]"] 1
    by (simp add: start_def)
  have b: "getUserIssues missing_viewer_client
      \<lparr>get_userId = None, get_includeArchived = None, get_limit = None\<rparr> start =
     (Inl (Error ''Cannot read properties of undefined (reading 'assignedIssues')''),
      \<lparr>calls = [OpViewer],
       stderr = [LogError ''Error in getUserIssues: ''
         (Error ''Cannot read properties of undefined (reading 'assignedIssues')'')],
       unhandled = []\<rparr>)"
    using getUserIssues_resolution[of missing_viewer_client
      "\<lparr>get_userId = None, get_includeArchived = None, get_limit = None\<rparr>" start demo_user
      "Error ''x''" "[]"] 4
    by (simp add: start_def)
  have d: "\<exists>ops. calls (snd (getUserIssues demo_client
      \<lparr>get_userId = Some ''u7'', get_includeArchived = None, get_limit = Some 5\<rparr> start)) =
      OpUser ''u7'' # OpUserAssignedIssues ''u1'' \<lparr>vars_filter = None, vars_first = Some 5,
         vars_orderBy = None, vars_includeArchived = None\<rparr> # ops"
    using getUserIssues_resolution[of demo_client
      "\<lparr>get_userId = Some ''u7'', get_includeArchived = None, get_limit = Some 5\<rparr>" start demo_user
      "Error ''x''" "[]"] 2 3
    by (simp add: start_def)
  from a b d show ?thesis by blast
qed

subsection \<open>Reading a resource\<close>

lemma protocolMatch_scheme:
  assumes "protocol \<noteq> []" and "CHR '':'' \<notin> set protocol"
  shows "protocolMatch (protocol @ ''://'' @ rest) =
           Some (protocol, takeWhile (\<lambda>c. \<not> line_terminator c) rest)"
proof -
  have t: "takeWhile (\<lambda>c. c \<noteq> CHR '':'') (protocol @ ''://'' @ rest) = protocol"
    using assms(2) by (induction protocol) auto
  have d: "dropWhile (\<lambda>c. c \<noteq> CHR '':'') (protocol @ ''://'' @ rest) = ''://'' @ rest"
    using assms(2) by (induction protocol) auto
  show ?thesis using assms(1) by (simp add: protocolMatch_def t d Let_def del: append.simps) simp
qed

lemma protocolMatch_Some:
  assumes "protocolMatch uri = Some (protocol, path)"
  shows "\<exists>rest. uri = protocol @ ''://'' @ rest \<and> protocol \<noteq> [] \<and> CHR '':'' \<notin> set protocol"
proof -
  let ?p = "takeWhile (\<lambda>c. c \<noteq> CHR '':'') uri"
  let ?r = "dropWhile (\<lambda>c. c \<noteq> CHR '':'') uri"
  from assms have p: "?p = protocol" and ne: "?p \<noteq> []" and t: "take 3 ?r = ''://''"
    by (auto simp: protocolMatch_def Let_def split: if_splits)
  have "uri = ?p @ ?r" by simp
  moreover have "?r = take 3 ?r @ drop 3 ?r" by simp
  ultimately have "uri = protocol @ ''://'' @ drop 3 ?r" using p t by metis
  moreover have "CHR '':'' \<notin> set ?p" by (metis (mono_tags, lifting) set_takeWhileD)
  ultimately show ?thesis using p ne by blast
qed

lemma priority_names:
  "priorityMap (toLowerCase ''urgent'') = Some (Num 1)"
  "priorityMap (toLowerCase ''high'') = Some (Num 2)"
  "priorityMap (toLowerCase ''medium'') = Some (Num 3)"
  "priorityMap (toLowerCase ''low'') = Some (Num 4)"
  "priorityMap (toLowerCase ''none'') = Some (Num 0)"
  "priorityMap (toLowerCase ''URGENT'') = Some (Num 1)"
  "priorityMap (toLowerCase ''High'') = Some (Num 2)"
  "priorityMap (toLowerCase ''constructor'') = Some (Inherited ''constructor'')"
  "priorityMap (toLowerCase ''critical'') = None"
  by code_simp+


text \<open>
  C2: the names urgent, high, medium, low and none resolve to 1, 2, 3, 4 and 0
  (\<open>priority_names\<close>), but the resolved number is not always the priority filter of
  the search: reading \<open>linear-priority://none\<close> resolves to 0, which
  \<open>buildSearchFilter\<close> drops, so the search is sent with the empty filter.
\<close>

theorem linear_priority_none_unfiltered:
  "priorityMap (toLowerCase ''none'') = Some (Num 0)
   \<and> filter_priority empty_filter = None
   \<and> (\<exists>ops. calls (snd (readResource client ''linear-priority://none'' s)) =
         calls s @ OpIssues \<lparr>vars_filter = Some empty_filter, vars_first = Some 10,
                     vars_orderBy = None, vars_includeArchived = None\<rparr> # ops)"
proof -
  have m: "protocolMatch ''linear-priority://none'' = Some (''linear-priority'', ''none'')"
    by (simp add: protocolMatch_def line_terminator_def)
  have l: "toLowerCase ''none'' = ''none''"
    by (simp add: toLowerCase_def toLowerCase_char_def)
  have p: "priorityMap ''none'' = Some (Num 0)"
    by (simp add: priorityMap_def)
  have f: "buildSearchFilter (no_search\<lparr>search_priority := Some (Num 0)\<rparr>) = empty_filter"
    by (simp add: buildSearchFilter_def no_search_def)
  have r: "readResource client ''linear-priority://none'' s =
     io_bind (searchIssues client (no_search\<lparr>search_priority := Some (Num 0)\<rparr>)) (\<lambda>issues.
                   io_return (contents (''linear-priority://'' @ ''none'') (IssuesJson issues))) s"
    by (simp add: readResource_def m l p)
  have "calls (snd (readResource client ''linear-priority://none'' s)) =
        calls (snd (searchIssues client (no_search\<lparr>search_priority := Some (Num 0)\<rparr>) s))"
    unfolding r io_bind_return_snd ..
  then have "\<exists>ops. calls (snd (readResource client ''linear-priority://none'' s)) =
         calls s @ OpIssues \<lparr>vars_filter = Some empty_filter, vars_first = Some 10,
                     vars_orderBy = None, vars_includeArchived = None\<rparr> # ops"
    using searchIssues_calls[of client "no_search\<lparr>search_priority := Some (Num 0)\<rparr>" s]
    by (simp add: f) (simp add: no_search_def number_or_def)
  then show ?thesis by (simp add: l p empty_filter_def)
qed

text \<open>
  A name that an object literal inherits, such as \<open>constructor\<close>, is not rejected
  either: the inherited member is sent as the priority of the filter.
\<close>

lemma linear_priority_inherited_name:
  "\<exists>ops. calls (snd (readResource client ''linear-priority://constructor'' s)) =
     calls s @ OpIssues \<lparr>vars_filter =
         Some (empty_filter\<lparr>filter_priority := Some (PEq (Inherited ''constructor''))\<rparr>),
       vars_first = Some 10, vars_orderBy = None, vars_includeArchived = None\<rparr> # ops"
proof -
  have m: "protocolMatch ''linear-priority://constructor'' =
             Some (''linear-priority'', ''constructor'')"
    by (simp add: protocolMatch_def line_terminator_def)
  have l: "toLowerCase ''constructor'' = ''constructor''"
    by (simp add: toLowerCase_def toLowerCase_char_def)
  have p: "priorityMap ''constructor'' = Some (Inherited ''constructor'')"
    by (simp add: priorityMap_def Object_prototype_keys_def)
  have f: "buildSearchFilter (no_search\<lparr>search_priority := Some (Inherited ''constructor'')\<rparr>) =
             empty_filter\<lparr>filter_priority := Some (PEq (Inherited ''constructor''))\<rparr>"
    by (simp add: buildSearchFilter_def no_search_def)
  have r: "readResource client ''linear-priority://constructor'' s =
     io_bind (searchIssues client
                (no_search\<lparr>search_priority := Some (Inherited ''constructor'')\<rparr>)) (\<lambda>issues.
        io_return (contents (''linear-priority://'' @ ''constructor'') (IssuesJson issues))) s"
    by (simp add: readResource_def m l p)
  have "calls (snd (readResource client ''linear-priority://constructor'' s)) =
        calls (snd (searchIssues client
                      (no_search\<lparr>search_priority := Some (Inherited ''constructor'')\<rparr>) s))"
    unfolding r io_bind_return_snd ..
  then show ?thesis
    using searchIssues_calls[of client
        "no_search\<lparr>search_priority := Some (Inherited ''constructor'')\<rparr>" s]
    by (simp add: f) (simp add: no_search_def number_or_def)
qed

text \<open>
  C7, as stated, fails: a URI whose prefix before \<open>://\<close> is empty or contains a colon
  does not match the handler's pattern, and the read fails with the error
  \<open>Invalid URI format\<close>, not with the unsupported-resource error.
\<close>

theorem unsupported_scheme_counterexample:
  "readResource demo_client ''a:b://c'' start = (Inl (Error ''Invalid URI format: a:b://c''), start)
   \<and> readResource demo_client ''://x'' start = (Inl (Error ''Invalid URI format: ://x''), start)"
  by (simp add: readResource_def protocolMatch_def io_throw_def task_return_def)


text \<open>
  C7, amended: for every URI \<open>scheme://rest\<close> whose scheme is not empty, has no colon
  and is not one of the recognized schemes, reading the resource fails with the
  unsupported-resource error and makes no remote call; a URI that is not of the form
  \<open>scheme://rest\<close> with such a scheme fails with the invalid-format error, also without
  a remote call.
\<close>

theorem unsupported_scheme:
  "(protocol \<noteq> [] \<and> CHR '':'' \<notin> set protocol \<and>
    protocol \<notin> set [''linear-organization'', ''linear-viewer'', ''linear-my-issues'',
      ''linear-my-backlog'', ''linear-my-planned'', ''linear-my-in-progress'',
      ''linear-my-under-review'', ''linear-my-high-priority'', ''linear-recent-issues'',
      ''linear-issue'', ''linear-team'', ''linear-user'', ''linear-search'', ''linear-priority'']
    \<longrightarrow> readResource client (protocol @ ''://'' @ rest) s =
          (Inl (Error (''Unsupported resource URI: '' @ protocol @ ''://'' @ rest)), s))
   \<and> ((\<forall>scheme rest'. scheme \<noteq> [] \<and> CHR '':'' \<notin> set scheme \<longrightarrow> uri \<noteq> scheme @ ''://'' @ rest')
      \<longrightarrow> readResource client uri s = (Inl (Error (''Invalid URI format: '' @ uri)), s))"
proof (intro conjI impI)
  assume a: "protocol \<noteq> [] \<and> CHR '':'' \<notin> set protocol \<and>
    protocol \<notin> set [''linear-organization'', ''linear-viewer'', ''linear-my-issues'',
      ''linear-my-backlog'', ''linear-my-planned'', ''linear-my-in-progress'',
      ''linear-my-under-review'', ''linear-my-high-priority'', ''linear-recent-issues'',
      ''linear-issue'', ''linear-team'', ''linear-user'', ''linear-search'', ''linear-priority'']"
  then have m: "protocolMatch (protocol @ ''://'' @ rest) =
           Some (protocol, takeWhile (\<lambda>c. \<not> line_terminator c) rest)"
    using protocolMatch_scheme by blast
  from a show "readResource client (protocol @ ''://'' @ rest) s =
          (Inl (Error (''Unsupported resource URI: '' @ protocol @ ''://'' @ rest)), s)"
    unfolding readResource_def m by (simp add: io_throw_def task_return_def)
next
  assume a: "\<forall>scheme rest'. scheme \<noteq> [] \<and> CHR '':'' \<notin> set scheme \<longrightarrow> uri \<noteq> scheme @ ''://'' @ rest'"
  have "protocolMatch uri = None"
  proof (cases "protocolMatch uri")
    case None then show ?thesis .
  next
    case (Some pp)
    obtain p q where "pp = (p, q)" by (cases pp)
    with Some protocolMatch_Some[of uri p q] a show ?thesis by blast
  qed
  then show "readResource client uri s = (Inl (Error (''Invalid URI format: '' @ uri)), s)"
    by (simp add: readResource_def io_throw_def task_return_def)
qed

theorem unsupported_scheme_witness:
  "readResource demo_client ''linear-project://p1'' start =
     (Inl (Error ''Unsupported resource URI: linear-project://p1''), start)
   \<and> readResource demo_client ''linear-issue'' start =
     (Inl (Error ''Invalid URI format: linear-issue''), start)"
proof -
  have h: "''linear-issue'' \<noteq> scheme @ ''://'' @ rest'" for scheme rest'
  proof
    assume "''linear-issue'' = scheme @ ''://'' @ rest'"
    then have "CHR '':'' \<in> set ''linear-issue''" by (metis in_set_conv_decomp append_Cons)
    then show False by simp
  qed
  show ?thesis
    using unsupported_scheme[where protocol="''linear-project''" and rest="''p1''"
        and client=demo_client and s=start and uri="''linear-issue''"] h
    by simp
qed


text \<open>
  C8: for each of the templated schemes linear-issue, linear-team, linear-user,
  linear-search and linear-priority, reading the URI with an empty path fails with an
  error that names the missing parameter, and the calls made are unchanged: no remote
  call is attempted.
\<close>

theorem empty_path_parameter:
  "readResource client ''linear-issue://'' s =
     (Inl (Error ''Issue ID is required for linear-issue resource''), s)
   \<and> readResource client ''linear-team://'' s =
     (Inl (Error ''Team ID is required for linear-team resource''), s)
   \<and> readResource client ''linear-user://'' s =
     (Inl (Error ''User ID is required for linear-user resource''), s)
   \<and> readResource client ''linear-search://'' s =
     (Inl (Error ''Search query is required for linear-search resource''), s)
   \<and> readResource client ''linear-priority://'' s =
     (Inl (Error ''Priority level is required for linear-priority resource''), s)"
  by (simp add: readResource_def protocolMatch_def io_throw_def task_return_def)

theorem empty_path_parameter_witness:
  "readResource demo_client ''linear-issue://'' start =
     (Inl (Error ''Issue ID is required for linear-issue resource''), start)
   \<and> calls (snd (readResource demo_client ''linear-priority://'' start)) = []"
  using empty_path_parameter[of demo_client start] by (simp add: start_def)


subsection \<open>My issues\<close>

lemma bucket_filter:
  assumes "assignee \<noteq> []" and "status \<noteq> []"
  shows "buildSearchFilter (no_search\<lparr>search_assigneeId := Some assignee,
                                       search_status := Some status\<rparr>) =
         empty_filter\<lparr>filter_state_name := Some (Eq status),
                      filter_assignee_id := Some (Eq assignee)\<rparr>"
  using assms by (simp add: buildSearchFilter_def no_search_def)

lemma priority_filter:
  assumes "assignee \<noteq> []" and "p \<noteq> 0"
  shows "buildSearchFilter (no_search\<lparr>search_assigneeId := Some assignee,
                                       search_priority := Some (Num p)\<rparr>) =
         empty_filter\<lparr>filter_assignee_id := Some (Eq assignee),
                      filter_priority := Some (PEq (Num p))\<rparr>"
  using assms by (simp add: buildSearchFilter_def no_search_def)

lemma search_first_call:
  assumes "search_limit args = None" and "search_includeArchived args = None"
  shows "\<exists>ops. calls (snd (searchIssues client args s)) =
     calls s @ OpIssues \<lparr>vars_filter = Some (buildSearchFilter args), vars_first = Some 10,
                 vars_orderBy = None, vars_includeArchived = None\<rparr> # ops"
  using searchIssues_calls[of client args s] assms by (simp add: number_or_def)

text \<open>
  C5: given the viewer that \<open>getViewer\<close> returns, reading one of the resources
  my-backlog, my-planned, my-in-progress and my-under-review is exactly one search, for
  the arguments assigneeId = the viewer's id and status = the literal name of the
  bucket (Backlog, Planned this Cycle, In Progress, Under Review): the read fails as
  that search fails and otherwise returns the issues of that search, under the URI of
  the bucket. The search sends the filter built from those two arguments, which for a
  viewer id that is not empty is the two equality clauses and nothing else. Reading
  my-high-priority is the search for priority 1 followed by the search for priority 2,
  each with the viewer as assignee, and returns the issues of the first followed by the
  issues of the second, as they are.
\<close>

theorem my_issue_buckets:
  assumes v: "getViewer client s = (Inr viewer, s1)"
  shows "((uri, status) \<in> {(''linear-my-backlog://'', ''Backlog''),
              (''linear-my-planned://'', ''Planned this Cycle''),
              (''linear-my-in-progress://'', ''In Progress''),
              (''linear-my-under-review://'', ''Under Review'')} \<longrightarrow>
       readResource client uri s =
         (case searchIssues client
                 (no_search\<lparr>search_assigneeId := Some (viewer_id viewer),
                            search_status := Some status\<rparr>) s1 of
            (Inl e, s2) \<Rightarrow> (Inl e, s2)
          | (Inr issues, s2) \<Rightarrow>
              (Inr [\<lparr>contents_uri = uri, contents_mimeType = ''application/json'',
                     contents_text = IssuesJson issues\<rparr>], s2))
       \<and> (\<exists>ops. calls (snd (searchIssues client
                 (no_search\<lparr>search_assigneeId := Some (viewer_id viewer),
                            search_status := Some status\<rparr>) s1)) =
           calls s1 @ OpIssues \<lparr>vars_filter = Some (buildSearchFilter
               (no_search\<lparr>search_assigneeId := Some (viewer_id viewer),
                          search_status := Some status\<rparr>)),
             vars_first = Some 10, vars_orderBy = None, vars_includeArchived = None\<rparr> # ops)
       \<and> (viewer_id viewer \<noteq> [] \<longrightarrow>
            buildSearchFilter (no_search\<lparr>search_assigneeId := Some (viewer_id viewer),
                                          search_status := Some status\<rparr>) =
            empty_filter\<lparr>filter_state_name := Some (Eq status),
                         filter_assignee_id := Some (Eq (viewer_id viewer))\<rparr>))
    \<and> readResource client ''linear-my-high-priority://'' s =
         (case searchIssues client
                 (no_search\<lparr>search_assigneeId := Some (viewer_id viewer),
                            search_priority := Some (Num 1)\<rparr>) s1 of
            (Inl e, s2) \<Rightarrow> (Inl e, s2)
          | (Inr urgentIssues, s2) \<Rightarrow>
              (case searchIssues client
                      (no_search\<lparr>search_assigneeId := Some (viewer_id viewer),
                                 search_priority := Some (Num 2)\<rparr>) s2 of
                 (Inl e, s3) \<Rightarrow> (Inl e, s3)
               | (Inr highIssues, s3) \<Rightarrow>
                   (Inr [\<lparr>contents_uri = ''linear-my-high-priority://'',
                          contents_mimeType = ''application/json'',
                          contents_text = IssuesJson (urgentIssues @ highIssues)\<rparr>], s3)))
    \<and> (\<forall>p t. \<exists>ops. calls (snd (searchIssues client
                 (no_search\<lparr>search_assigneeId := Some (viewer_id viewer),
                            search_priority := Some (Num p)\<rparr>) t)) =
           calls t @ OpIssues \<lparr>vars_filter = Some (buildSearchFilter
               (no_search\<lparr>search_assigneeId := Some (viewer_id viewer),
                          search_priority := Some (Num p)\<rparr>)),
             vars_first = Some 10, vars_orderBy = None, vars_includeArchived = None\<rparr> # ops)
    \<and> (viewer_id viewer \<noteq> [] \<longrightarrow>
            buildSearchFilter (no_search\<lparr>search_assigneeId := Some (viewer_id viewer),
                                          search_priority := Some (Num 1)\<rparr>) =
            empty_filter\<lparr>filter_assignee_id := Some (Eq (viewer_id viewer)),
                         filter_priority := Some (PEq (Num 1))\<rparr>
          \<and> buildSearchFilter (no_search\<lparr>search_assigneeId := Some (viewer_id viewer),
                                          search_priority := Some (Num 2)\<rparr>) =
            empty_filter\<lparr>filter_assignee_id := Some (Eq (viewer_id viewer)),
                         filter_priority := Some (PEq (Num 2))\<rparr>)"
proof (intro conjI impI allI)
  assume m: "(uri, status) \<in> {(''linear-my-backlog://'', ''Backlog''),
              (''linear-my-planned://'', ''Planned this Cycle''),
              (''linear-my-in-progress://'', ''In Progress''),
              (''linear-my-under-review://'', ''Under Review'')}"
  then have r: "readResource client uri s =
      io_bind (getViewer client) (\<lambda>viewer.
         io_bind (searchIssues client
           (no_search\<lparr>search_assigneeId := Some (viewer_id viewer),
                      search_status := Some status\<rparr>)) (\<lambda>issues.
         io_return (contents uri (IssuesJson issues)))) s"
    by (auto simp: readResource_def protocolMatch_def)
  show "readResource client uri s =
         (case searchIssues client
                 (no_search\<lparr>search_assigneeId := Some (viewer_id viewer),
                            search_status := Some status\<rparr>) s1 of
            (Inl e, s2) \<Rightarrow> (Inl e, s2)
          | (Inr issues, s2) \<Rightarrow>
              (Inr [\<lparr>contents_uri = uri, contents_mimeType = ''application/json'',
                     contents_text = IssuesJson issues\<rparr>], s2))"
    unfolding r io_bind_Inr[where m="getViewer client", OF v]
    by (simp add: io_bind_result io_return_def task_return_def contents_def
        split: prod.splits sum.splits)
  show "\<exists>ops. calls (snd (searchIssues client
                 (no_search\<lparr>search_assigneeId := Some (viewer_id viewer),
                            search_status := Some status\<rparr>) s1)) =
           calls s1 @ OpIssues \<lparr>vars_filter = Some (buildSearchFilter
               (no_search\<lparr>search_assigneeId := Some (viewer_id viewer),
                          search_status := Some status\<rparr>)),
             vars_first = Some 10, vars_orderBy = None, vars_includeArchived = None\<rparr> # ops"
    by (rule search_first_call) (simp_all add: no_search_def)
  from m have ne: "status \<noteq> []" by auto
  assume "viewer_id viewer \<noteq> []"
  then show "buildSearchFilter (no_search\<lparr>search_assigneeId := Some (viewer_id viewer),
                                          search_status := Some status\<rparr>) =
            empty_filter\<lparr>filter_state_name := Some (Eq status),
                         filter_assignee_id := Some (Eq (viewer_id viewer))\<rparr>"
    using ne by (rule bucket_filter)
next
  show "readResource client ''linear-my-high-priority://'' s =
         (case searchIssues client
                 (no_search\<lparr>search_assigneeId := Some (viewer_id viewer),
                            search_priority := Some (Num 1)\<rparr>) s1 of
            (Inl e, s2) \<Rightarrow> (Inl e, s2)
          | (Inr urgentIssues, s2) \<Rightarrow>
              (case searchIssues client
                      (no_search\<lparr>search_assigneeId := Some (viewer_id viewer),
                                 search_priority := Some (Num 2)\<rparr>) s2 of
                 (Inl e, s3) \<Rightarrow> (Inl e, s3)
               | (Inr highIssues, s3) \<Rightarrow>
                   (Inr [\<lparr>contents_uri = ''linear-my-high-priority://'',
                          contents_mimeType = ''application/json'',
                          contents_text = IssuesJson (urgentIssues @ highIssues)\<rparr>], s3)))"
    by (simp add: readResource_def protocolMatch_def io_bind_Inr[where m="getViewer client", OF v])
       (simp add: io_bind_result io_return_def task_return_def contents_def
        split: prod.splits sum.splits)
next
  fix p t
  show "\<exists>ops. calls (snd (searchIssues client
                 (no_search\<lparr>search_assigneeId := Some (viewer_id viewer),
                            search_priority := Some (Num p)\<rparr>) t)) =
           calls t @ OpIssues \<lparr>vars_filter = Some (buildSearchFilter
               (no_search\<lparr>search_assigneeId := Some (viewer_id viewer),
                          search_priority := Some (Num p)\<rparr>)),
             vars_first = Some 10, vars_orderBy = None, vars_includeArchived = None\<rparr> # ops"
    by (rule search_first_call) (simp_all add: no_search_def)
next
  assume ne: "viewer_id viewer \<noteq> []"
  show "buildSearchFilter (no_search\<lparr>search_assigneeId := Some (viewer_id viewer),
                                          search_priority := Some (Num 1)\<rparr>) =
            empty_filter\<lparr>filter_assignee_id := Some (Eq (viewer_id viewer)),
                         filter_priority := Some (PEq (Num 1))\<rparr>"
    by (rule priority_filter[OF ne]) simp
  show "buildSearchFilter (no_search\<lparr>search_assigneeId := Some (viewer_id viewer),
                                          search_priority := Some (Num 2)\<rparr>) =
            empty_filter\<lparr>filter_assignee_id := Some (Eq (viewer_id viewer)),
                         filter_priority := Some (PEq (Num 2))\<rparr>"
    by (rule priority_filter[OF ne]) simp
qed

theorem my_issue_buckets_witness:
  "fst (readResource demo_client ''linear-my-backlog://'' start) =
      Inr [\<lparr>contents_uri = ''linear-my-backlog://'', contents_mimeType = ''application/json'',
            contents_text = IssuesJson [demo_summary]\<rparr>]
   \<and> fst (readResource demo_client ''linear-my-high-priority://'' start) =
      Inr [\<lparr>contents_uri = ''linear-my-high-priority://'',
            contents_mimeType = ''application/json'',
            contents_text = IssuesJson [demo_summary, demo_summary]\<rparr>]
   \<and> buildSearchFilter (no_search\<lparr>search_assigneeId := Some ''u1'',
                                     search_status := Some ''Backlog''\<rparr>) =
       empty_filter\<lparr>filter_state_name := Some (Eq ''Backlog''),
                    filter_assignee_id := Some (Eq ''u1'')\<rparr>"
proof -
  define viewer where "viewer = \<lparr>viewer_id = ''u1'', viewer_name = ''Ada'',
     viewer_email = ''ada@example.com'', viewer_admin = False, viewer_teams = [demo_team],
     viewer_organization = demo_organization\<rparr>"
  define s1 where "s1 = \<lparr>calls = [OpViewer, OpUserTeams ''u1'', OpOrganization], stderr = [],
     unhandled = []\<rparr>"
  have v: "getViewer demo_client start = (Inr viewer, s1)"
    by (simp add: getViewer_def run_defs demo_client_def demo_user_def start_def viewer_def
        s1_def)
  have id: "viewer_id viewer = ''u1''" by (simp add: viewer_def)
  have all: "fst (searchIssues demo_client args s) = Inr [demo_summary]" for args s
    by (simp add: searchIssues_def searchIssues_item_def promise_all_def run_defs
        demo_client_def demo_user_def demo_issue_def string_or_null_def demo_summary_def)
  obtain sb where b: "searchIssues demo_client
      (no_search\<lparr>search_assigneeId := Some ''u1'', search_status := Some ''Backlog''\<rparr>) s1 =
      (Inr [demo_summary], sb)"
    using all[of "no_search\<lparr>search_assigneeId := Some ''u1'', search_status := Some ''Backlog''\<rparr>" s1]
    by (cases "searchIssues demo_client
      (no_search\<lparr>search_assigneeId := Some ''u1'', search_status := Some ''Backlog''\<rparr>) s1") simp
  obtain s2 where u: "searchIssues demo_client
      (no_search\<lparr>search_assigneeId := Some ''u1'', search_priority := Some (Num 1)\<rparr>) s1 =
      (Inr [demo_summary], s2)"
    using all[of "no_search\<lparr>search_assigneeId := Some ''u1'', search_priority := Some (Num 1)\<rparr>" s1]
    by (cases "searchIssues demo_client
      (no_search\<lparr>search_assigneeId := Some ''u1'', search_priority := Some (Num 1)\<rparr>) s1") simp
  obtain s3 where h: "searchIssues demo_client
      (no_search\<lparr>search_assigneeId := Some ''u1'', search_priority := Some (Num 2)\<rparr>) s2 =
      (Inr [demo_summary], s3)"
    using all[of "no_search\<lparr>search_assigneeId := Some ''u1'', search_priority := Some (Num 2)\<rparr>" s2]
    by (cases "searchIssues demo_client
      (no_search\<lparr>search_assigneeId := Some ''u1'', search_priority := Some (Num 2)\<rparr>) s2") simp
  show ?thesis
    using my_issue_buckets[OF v, of "''linear-my-backlog://''" "''Backlog''"]
    unfolding id
    by (simp add: b u h)
qed

subsection \<open>Recent issues\<close>

lemma promise_all_ok:
  assumes "\<And>n s. \<exists>r s'. f n s = (Inr r, s') \<and> P n r"
  shows "\<exists>rs s'. promise_all f ns s = (Inr rs, s') \<and> list_all2 P ns rs"
proof -
  have "\<exists>rs s'. for_each f ns s = (map Inr rs, s') \<and> list_all2 P ns rs" for s
  proof (induction ns arbitrary: s)
    case Nil
    then show ?case by (simp add: task_return_def)
  next
    case (Cons n ns)
    from assms[of n s] obtain r s1 where r: "f n s = (Inr r, s1)" "P n r" by blast
    from Cons[of s1] obtain rs s2 where rs: "for_each f ns s1 = (map Inr rs, s2)"
      "list_all2 P ns rs" by blast
    show ?case using r rs
      by (intro exI[of _ "r # rs"] exI[of _ s2]) (simp add: task_bind_def task_return_def)
  qed
  then obtain rs s' where f: "for_each f ns s = (map Inr rs, s')" "list_all2 P ns rs" by blast
  have "settle_all (map Inr rs) = Inr rs" by (induction rs) simp_all
  with f show ?thesis by (simp add: promise_all_def task_bind_def task_return_def)
qed

lemma listIssues_item_ok:
  assumes "\<forall>h. \<not> isl (workflowStateFetch client h)" and "\<forall>h. \<not> isl (userFetch client h)"
    and "\<forall>h. \<not> isl (teamFetch client h)"
  shows "\<exists>r s'. listIssues_item client issue s = (Inr r, s')
     \<and> (resource_uri r = ''linear-issue://'' @ issue_id issue
        \<and> resource_mimeType r = ''application/json''
        \<and> resource_name r = issue_title issue
        \<and> resource_description r =
            ''Linear issue '' @ issue_identifier issue @ '': '' @ issue_title issue
        \<and> metadata_identifier (resource_metadata r) = issue_identifier issue
        \<and> metadata_priority (resource_metadata r) = issue_priority issue)"
proof -
  let ?h1 = "calls s @ [OpIssueState (issue_id issue)]"
  let ?h2 = "?h1 @ [OpIssueAssignee (issue_id issue)]"
  let ?h3 = "?h2 @ [OpIssueTeam (issue_id issue)]"
  obtain st where 1: "workflowStateFetch client ?h1 = Inr st"
    using assms(1) by (cases "workflowStateFetch client ?h1") (metis sum.disc(1), simp)
  obtain us where 2: "userFetch client ?h2 = Inr us"
    using assms(2) by (cases "userFetch client ?h2") (metis sum.disc(1), simp)
  obtain tm where 3: "teamFetch client ?h3 = Inr tm"
    using assms(3) by (cases "teamFetch client ?h3") (metis sum.disc(1), simp)
  show ?thesis using 1 2 3
    by (simp add: listIssues_item_def getIssueDetails_def await_then_def run_defs)
qed

text \<open>
  C10: \<open>linear-recent-issues://\<close> is not among the 8 listed resources and is the scheme
  of no resource template, yet reading it asks the tracker for the first 50 issues
  ordered by their update time and, when the tracker answers, returns under that URI a
  JSON payload with one entry for each issue it got, in their order, each with the URI,
  name, description, identifier and priority of its issue.
\<close>

theorem recent_issues_readable_but_unlisted:
  "''linear-recent-issues://'' \<notin> set (map listed_uri (fst listResources))
   \<and> length (fst listResources) = 8
   \<and> ''linear-recent-issues'' \<notin>
       set (map (\<lambda>t. takeWhile (\<lambda>c. c \<noteq> CHR '':'') (template_uriTemplate t)) (snd listResources))
   \<and> (\<exists>ops. calls (snd (readResource client ''linear-recent-issues://'' s)) =
         calls s @ OpIssues \<lparr>vars_filter = None, vars_first = Some 50,
                      vars_orderBy = Some UpdatedAt, vars_includeArchived = None\<rparr> # ops)
   \<and> (issueConnection client (calls s @ [OpIssues \<lparr>vars_filter = None, vars_first = Some 50,
                      vars_orderBy = Some UpdatedAt, vars_includeArchived = None\<rparr>]) = Inr (Some nodes)
       \<and> (\<forall>h. \<not> isl (workflowStateFetch client h)) \<and> (\<forall>h. \<not> isl (userFetch client h))
       \<and> (\<forall>h. \<not> isl (teamFetch client h)) \<longrightarrow>
       (\<exists>issues s'. readResource client ''linear-recent-issues://'' s =
            (Inr [\<lparr>contents_uri = ''linear-recent-issues://'',
                   contents_mimeType = ''application/json'',
                   contents_text = ResourcesJson issues\<rparr>], s')
          \<and> list_all2 (\<lambda>node entry.
                resource_uri entry = ''linear-issue://'' @ issue_id node
                \<and> resource_mimeType entry = ''application/json''
                \<and> resource_name entry = issue_title node
                \<and> resource_description entry =
                    ''Linear issue '' @ issue_identifier node @ '': '' @ issue_title node
                \<and> metadata_identifier (resource_metadata entry) = issue_identifier node
                \<and> metadata_priority (resource_metadata entry) = issue_priority node)
              nodes issues))"
proof (intro conjI impI)
  show "''linear-recent-issues://'' \<notin> set (map listed_uri (fst listResources))"
    by (simp add: listResources_def)
  show "length (fst listResources) = 8"
    by (simp add: listResources_def)
  show "''linear-recent-issues'' \<notin>
       set (map (\<lambda>t. takeWhile (\<lambda>c. c \<noteq> CHR '':'') (template_uriTemplate t)) (snd listResources))"
    by (simp add: listResources_def resourceTemplates_def)
  have r: "readResource client ''linear-recent-issues://'' s =
     io_bind (listIssues client) (\<lambda>issues.
         io_return (contents ''linear-recent-issues://'' (ResourcesJson issues))) s"
    by (simp add: readResource_def protocolMatch_def)
  show "\<exists>ops. calls (snd (readResource client ''linear-recent-issues://'' s)) =
         calls s @ OpIssues \<lparr>vars_filter = None, vars_first = Some 50,
                      vars_orderBy = Some UpdatedAt, vars_includeArchived = None\<rparr> # ops"
    unfolding r io_bind_return_snd listIssues_def
    by (intro request_then_calls quiet_intros quiet_listIssues_item)
  assume a: "issueConnection client (calls s @ [OpIssues \<lparr>vars_filter = None, vars_first = Some 50,
                      vars_orderBy = Some UpdatedAt, vars_includeArchived = None\<rparr>]) = Inr (Some nodes)
       \<and> (\<forall>h. \<not> isl (workflowStateFetch client h)) \<and> (\<forall>h. \<not> isl (userFetch client h))
       \<and> (\<forall>h. \<not> isl (teamFetch client h))"
  let ?s1 = "s\<lparr>calls := calls s @ [OpIssues \<lparr>vars_filter = None, vars_first = Some 50,
                      vars_orderBy = Some UpdatedAt, vars_includeArchived = None\<rparr>]\<rparr>"
  let ?P = "\<lambda>node entry.
                resource_uri entry = ''linear-issue://'' @ issue_id node
                \<and> resource_mimeType entry = ''application/json''
                \<and> resource_name entry = issue_title node
                \<and> resource_description entry =
                    ''Linear issue '' @ issue_identifier node @ '': '' @ issue_title node
                \<and> metadata_identifier (resource_metadata entry) = issue_identifier node
                \<and> metadata_priority (resource_metadata entry) = issue_priority node"
  from a have l: "listIssues client s = promise_all (listIssues_item client) nodes ?s1"
    by (simp add: listIssues_def io_bind_request io_bind_defined_Some)
  from a have ok: "\<And>n s. \<exists>r s'. listIssues_item client n s = (Inr r, s') \<and> ?P n r"
    using listIssues_item_ok by blast
  from promise_all_ok[of "listIssues_item client" ?P nodes ?s1, OF ok]
  obtain issues s' where p: "promise_all (listIssues_item client) nodes ?s1 = (Inr issues, s')"
    and q: "list_all2 ?P nodes issues"
    by blast
  have "readResource client ''linear-recent-issues://'' s =
            (Inr [\<lparr>contents_uri = ''linear-recent-issues://'',
                   contents_mimeType = ''application/json'',
                   contents_text = ResourcesJson issues\<rparr>], s')"
    unfolding r using l p by (simp add: io_bind_result io_return_def task_return_def contents_def)
  with q
  show "\<exists>issues s'. readResource client ''linear-recent-issues://'' s =
            (Inr [\<lparr>contents_uri = ''linear-recent-issues://'',
                   contents_mimeType = ''application/json'',
                   contents_text = ResourcesJson issues\<rparr>], s')
          \<and> list_all2 ?P nodes issues"
    by blast
qed

theorem recent_issues_readable_but_unlisted_witness:
  "\<exists>entry s'. readResource demo_client ''linear-recent-issues://'' start =
       (Inr [\<lparr>contents_uri = ''linear-recent-issues://'',
              contents_mimeType = ''application/json'',
              contents_text = ResourcesJson [entry]\<rparr>], s')
     \<and> resource_uri entry = ''linear-issue://i1''
     \<and> resource_name entry = ''Fix login''"
proof -
  have c: "issueConnection demo_client h = Inr (Some [demo_issue])"
    and f: "\<not> isl (workflowStateFetch demo_client h)" "\<not> isl (userFetch demo_client h)"
      "\<not> isl (teamFetch demo_client h)" for h
    by (simp_all add: demo_client_def)
  have i: "issue_id demo_issue = ''i1''" "issue_title demo_issue = ''Fix login''"
    by (simp_all add: demo_issue_def)
  show ?thesis
    using recent_issues_readable_but_unlisted[of demo_client start "[demo_issue]"] c f
    by (auto simp: i list_all2_Cons1)
qed

text \<open>
  The slip in \<open>getIssueDetails\<close>: when the state and the assignee of an issue both
  reject, the rejection of the assignee is left unhandled.
\<close>

lemma resource_read_leaves_rejection_unhandled:
  "readResource rate_limited_client ''linear-issue://i1'' start =
     (Inl (Error ''Rate limited''),
      \<lparr>calls = [OpIssue ''i1'', OpIssueState ''i1'', OpIssueAssignee ''i1'', OpIssueTeam ''i1''],
       stderr = [], unhandled = [Error ''Rate limited'']\<rparr>)"
  by (simp add: readResource_def protocolMatch_def line_terminator_def getIssue_def
      getIssueDetails_def await_then_def abandon_def rejection_def run_defs
      rate_limited_client_def demo_client_def demo_issue_def start_def)

subsection \<open>Schemas\<close>

lemma issues_of_z_ap: "issues_of (z_ap f x) = issues_of f @ issues_of x"
  by (cases f; cases x) (simp_all add: issues_of_def)

lemma isl_z_ap: "isl (z_ap f x) = (isl f \<or> isl x)"
  by (cases f; cases x) simp_all

lemma parsed_Inl: "isl p \<Longrightarrow> p = Inl (issues_of p)"
  by (cases p) (simp_all add: issues_of_def)

lemma reports_z_ap: "f \<noteq> Inl [] \<Longrightarrow> x \<noteq> Inl [] \<Longrightarrow> z_ap f x \<noteq> Inl []"
  by (cases f; cases x) simp_all

lemma reports_invalid_type: "invalid_type path expected v \<noteq> []"
  by (simp add: invalid_type_def split: option.splits)

lemma reports_z_string: "z_string path v \<noteq> Inl []"
  by (simp add: z_string_def reports_invalid_type split: option.splits json.splits)

lemma reports_z_number: "z_number path v \<noteq> Inl []"
  by (simp add: z_number_def reports_invalid_type split: option.splits json.splits)

lemma reports_z_boolean: "z_boolean path v \<noteq> Inl []"
  by (simp add: z_boolean_def reports_invalid_type split: option.splits json.splits)

lemma reports_z_number_min_0_max_4: "z_number_min_0_max_4 path v \<noteq> Inl []"
  using reports_z_number[of path v]
  by (auto simp: z_number_min_0_max_4_def split: sum.splits list.splits)

lemma reports_z_elements:
  assumes "\<And>path v. element path v \<noteq> Inl []"
  shows "z_elements element path i xs \<noteq> Inl []"
proof (induction xs arbitrary: i)
  case Nil
  then show ?case by simp
next
  case (Cons x xs)
  show ?case using assms[of "path @ [Index i]" "Some x"] Cons[of "Suc i"]
    by (auto split: sum.splits)
qed

lemma reports_z_array:
  assumes "\<And>path v. element path v \<noteq> Inl []"
  shows "z_array element path v \<noteq> Inl []"
  using reports_z_elements[OF assms]
  by (simp add: z_array_def reports_invalid_type split: option.splits json.splits)

lemma reports_z_optional:
  assumes "\<And>path v. inner path v \<noteq> Inl []"
  shows "z_optional inner path v \<noteq> Inl []"
  using assms[of path v] by (auto simp: z_optional_def split: option.splits sum.splits)

lemma reports_z_field:
  assumes "\<And>path v. parser path v \<noteq> Inl []"
  shows "z_field args key parser \<noteq> Inl []"
  by (simp add: z_field_def assms)

lemmas reports_intros = reports_z_ap reports_z_field reports_z_optional reports_z_array
  reports_z_string reports_z_number reports_z_boolean reports_z_number_min_0_max_4

lemma reports_CreateIssueArgsSchema: "CreateIssueArgsSchema args \<noteq> Inl []"
  unfolding CreateIssueArgsSchema_def by (intro reports_intros) simp

lemma reports_UpdateIssueArgsSchema: "UpdateIssueArgsSchema args \<noteq> Inl []"
  unfolding UpdateIssueArgsSchema_def by (intro reports_intros) simp

lemma reports_SearchIssuesArgsSchema: "SearchIssuesArgsSchema args \<noteq> Inl []"
  unfolding SearchIssuesArgsSchema_def by (intro reports_intros) simp

lemma reports_GetUserIssuesArgsSchema: "GetUserIssuesArgsSchema args \<noteq> Inl []"
  unfolding GetUserIssuesArgsSchema_def by (intro reports_intros) simp

lemma reports_AddCommentArgsSchema: "AddCommentArgsSchema args \<noteq> Inl []"
  unfolding AddCommentArgsSchema_def by (intro reports_intros) simp

subsection \<open>Calling a tool\<close>

lemma io_bind_parse_Inl: "io_bind (parse (Inl issues)) f s = (Inl (ZodError issues), s)"
  by (simp add: parse_def io_bind_def task_bind_def io_throw_def task_return_def)

lemma callTool_apply:
  "callTool client name arguments s =
    (case callTool_try client name arguments s of
       (Inr result, s') \<Rightarrow> (result, s')
     | (Inl error, s') \<Rightarrow>
         (error_result error, s'\<lparr>stderr := stderr s' @ [LogError ''Error executing tool:'' error]\<rparr>))"
  by (simp add: callTool_def task_bind_def task_return_def console_error_def
      split: prod.splits sum.splits)

lemma callTool_try_success:
  assumes "callTool_try client name arguments s = (Inr result, s')"
  shows "\<exists>text. result = text_result text"
  using assms
  by (auto simp: callTool_try_def io_bind_result io_throw_def io_return_def task_return_def
      found_issues_def split: option.splits if_splits prod.splits sum.splits)

text \<open>
  C9, as stated, fails: a failure of a resource read is not caught by the handler. The
  error leaves the handler as it was thrown, whether it comes from the tracker or from
  the handler's own check, and no response is made of it.
\<close>

theorem resource_failure_is_thrown_counterexample:
  "readResource failing_viewer_client ''linear-viewer://'' start =
     (Inl (Error ''Authentication required''),
      \<lparr>calls = [OpViewer], stderr = [], unhandled = []\<rparr>)
   \<and> readResource demo_client ''linear-issue://'' start =
     (Inl (Error ''Issue ID is required for linear-issue resource''), start)"
  by (simp add: readResource_def protocolMatch_def getViewer_def run_defs
      failing_viewer_client_def start_def)

text \<open>
  C9, amended: when the arguments of a tool call fail the schema of the tool, the
  response is the validation envelope: its error flag \<open>metadata.error\<close> is set and it
  carries one entry with the path and the message of each issue of the schema, of which
  there is at least one. Every failure of a tool call, whatever was thrown, is caught by
  the handler of tool calls and returned as a response that has the error flag or the
  \<open>error\<close> key, while a successful call returns a response with neither; a tool call
  leaves no rejection unhandled. A resource read does not catch: whichever call of the
  adapter fails in it, for any of the resource kinds, its error is thrown on by the
  handler unchanged.
\<close>

theorem tool_failures_are_error_responses:
  "(CreateIssueArgsSchema args = Inl issues \<longrightarrow>
      callTool client ''linear_create_issue'' (Some args) s =
        (error_result (ZodError issues),
         s\<lparr>stderr := stderr s @ [LogError ''Error executing tool:'' (ZodError issues)]\<rparr>))
   \<and> (UpdateIssueArgsSchema args = Inl issues \<longrightarrow>
      callTool client ''linear_update_issue'' (Some args) s =
        (error_result (ZodError issues),
         s\<lparr>stderr := stderr s @ [LogError ''Error executing tool:'' (ZodError issues)]\<rparr>))
   \<and> (SearchIssuesArgsSchema args = Inl issues \<longrightarrow>
      callTool client ''linear_search_issues'' (Some args) s =
        (error_result (ZodError issues),
         s\<lparr>stderr := stderr s @ [LogError ''Error executing tool:'' (ZodError issues)]\<rparr>))
   \<and> (GetUserIssuesArgsSchema args = Inl issues \<longrightarrow>
      callTool client ''linear_get_user_issues'' (Some args) s =
        (error_result (ZodError issues),
         s\<lparr>stderr := stderr s @ [LogError ''Error executing tool:'' (ZodError issues)]\<rparr>))
   \<and> (AddCommentArgsSchema args = Inl issues \<longrightarrow>
      callTool client ''linear_add_comment'' (Some args) s =
        (error_result (ZodError issues),
         s\<lparr>stderr := stderr s @ [LogError ''Error executing tool:'' (ZodError issues)]\<rparr>))
   \<and> ((CreateIssueArgsSchema args = Inl issues \<or> UpdateIssueArgsSchema args = Inl issues \<or>
        SearchIssuesArgsSchema args = Inl issues \<or> GetUserIssuesArgsSchema args = Inl issues \<or>
        AddCommentArgsSchema args = Inl issues) \<longrightarrow> issues \<noteq> [])
   \<and> error_result (ZodError issues) =
        \<lparr>result_content = Some [ErrorText ''VALIDATION_ERROR'' ''Invalid request parameters''
           (Some (map (\<lambda>i. \<lparr>formatted_path = issue_path i, formatted_message = issue_message i,
                              formatted_code = ''VALIDATION_ERROR''\<rparr>) issues))],
         result_metadata_error = Some True, result_error = None\<rparr>
   \<and> (callTool_try client name arguments s = (Inl error, s') \<longrightarrow>
        callTool client name arguments s =
          (error_result error,
           s'\<lparr>stderr := stderr s' @ [LogError ''Error executing tool:'' error]\<rparr>)
        \<and> (result_metadata_error (error_result error) = Some True
           \<or> (\<exists>e. result_error (error_result error) = Some e)))
   \<and> (callTool_try client name arguments s = (Inr result, s') \<longrightarrow>
        callTool client name arguments s = (result, s')
        \<and> result_metadata_error result = None \<and> result_error result = None)
   \<and> unhandled (snd (callTool client name arguments s)) = unhandled s
   \<and> (getOrganization client s = (Inl error, s') \<longrightarrow>
        readResource client ''linear-organization://'' s = (Inl error, s'))
   \<and> (getViewer client s = (Inl error, s') \<longrightarrow>
        readResource client ''linear-viewer://'' s = (Inl error, s'))
   \<and> (getUserIssues client \<lparr>get_userId = None, get_includeArchived = None, get_limit = None\<rparr> s =
          (Inl error, s') \<longrightarrow>
        readResource client ''linear-my-issues://'' s = (Inl error, s'))
   \<and> (listIssues client s = (Inl error, s') \<longrightarrow>
        readResource client ''linear-recent-issues://'' s = (Inl error, s'))
   \<and> (uri \<in> {''linear-my-backlog://'', ''linear-my-planned://'', ''linear-my-in-progress://'',
              ''linear-my-under-review://'', ''linear-my-high-priority://''}
       \<and> getViewer client s = (Inl error, s') \<longrightarrow>
        readResource client uri s = (Inl error, s'))
   \<and> (path \<noteq> [] \<and> (\<forall>c\<in>set path. \<not> line_terminator c) \<longrightarrow>
        (getIssue client path s = (Inl error, s') \<longrightarrow>
           readResource client (''linear-issue://'' @ path) s = (Inl error, s'))
      \<and> (getTeamIssues client path s = (Inl error, s') \<longrightarrow>
           readResource client (''linear-team://'' @ path) s = (Inl error, s'))
      \<and> (getUserIssues client
             \<lparr>get_userId = (if path = ''me'' then None else Some path),
              get_includeArchived = None, get_limit = None\<rparr> s = (Inl error, s') \<longrightarrow>
           readResource client (''linear-user://'' @ path) s = (Inl error, s'))
      \<and> (searchIssues client (no_search\<lparr>search_query := Some path\<rparr>) s = (Inl error, s') \<longrightarrow>
           readResource client (''linear-search://'' @ path) s = (Inl error, s'))
      \<and> (priorityMap (toLowerCase path) = Some priority
          \<and> searchIssues client (no_search\<lparr>search_priority := Some priority\<rparr>) s =
              (Inl error, s') \<longrightarrow>
           readResource client (''linear-priority://'' @ path) s = (Inl error, s')))
   \<and> (getViewer client s = (Inr viewer, s1) \<longrightarrow>
        ((uri, status) \<in> {(''linear-my-backlog://'', ''Backlog''),
             (''linear-my-planned://'', ''Planned this Cycle''),
             (''linear-my-in-progress://'', ''In Progress''),
             (''linear-my-under-review://'', ''Under Review'')}
         \<and> searchIssues client (no_search\<lparr>search_assigneeId := Some (viewer_id viewer),
               search_status := Some status\<rparr>) s1 = (Inl error, s') \<longrightarrow>
           readResource client uri s = (Inl error, s'))
      \<and> (searchIssues client (no_search\<lparr>search_assigneeId := Some (viewer_id viewer),
               search_priority := Some (Num 1)\<rparr>) s1 = (Inl error, s') \<longrightarrow>
           readResource client ''linear-my-high-priority://'' s = (Inl error, s'))
      \<and> (searchIssues client (no_search\<lparr>search_assigneeId := Some (viewer_id viewer),
               search_priority := Some (Num 1)\<rparr>) s1 = (Inr urgentIssues, s2)
         \<and> searchIssues client (no_search\<lparr>search_assigneeId := Some (viewer_id viewer),
               search_priority := Some (Num 2)\<rparr>) s2 = (Inl error, s') \<longrightarrow>
           readResource client ''linear-my-high-priority://'' s = (Inl error, s')))"
proof -
  have t7: "((uri, status) \<in> {(''linear-my-backlog://'', ''Backlog''),
             (''linear-my-planned://'', ''Planned this Cycle''),
             (''linear-my-in-progress://'', ''In Progress''),
             (''linear-my-under-review://'', ''Under Review'')}
         \<and> searchIssues client (no_search\<lparr>search_assigneeId := Some (viewer_id viewer),
               search_status := Some status\<rparr>) s1 = (Inl error, s') \<longrightarrow>
           readResource client uri s = (Inl error, s'))
      \<and> (searchIssues client (no_search\<lparr>search_assigneeId := Some (viewer_id viewer),
               search_priority := Some (Num 1)\<rparr>) s1 = (Inl error, s') \<longrightarrow>
           readResource client ''linear-my-high-priority://'' s = (Inl error, s'))
      \<and> (searchIssues client (no_search\<lparr>search_assigneeId := Some (viewer_id viewer),
               search_priority := Some (Num 1)\<rparr>) s1 = (Inr urgentIssues, s2)
         \<and> searchIssues client (no_search\<lparr>search_assigneeId := Some (viewer_id viewer),
               search_priority := Some (Num 2)\<rparr>) s2 = (Inl error, s') \<longrightarrow>
           readResource client ''linear-my-high-priority://'' s = (Inl error, s'))"
    if "getViewer client s = (Inr viewer, s1)"
    using that by (auto simp: readResource_def protocolMatch_def io_bind_result)
  have t5: "readResource client uri s = (Inl error, s')"
    if "uri \<in> {''linear-my-backlog://'', ''linear-my-planned://'', ''linear-my-in-progress://'',
              ''linear-my-under-review://'', ''linear-my-high-priority://''}
       \<and> getViewer client s = (Inl error, s')"
    using that by (auto simp: readResource_def protocolMatch_def io_bind_result)
  have t6: "(getIssue client path s = (Inl error, s') \<longrightarrow>
           readResource client (''linear-issue://'' @ path) s = (Inl error, s'))
      \<and> (getTeamIssues client path s = (Inl error, s') \<longrightarrow>
           readResource client (''linear-team://'' @ path) s = (Inl error, s'))
      \<and> (getUserIssues client
             \<lparr>get_userId = (if path = ''me'' then None else Some path),
              get_includeArchived = None, get_limit = None\<rparr> s = (Inl error, s') \<longrightarrow>
           readResource client (''linear-user://'' @ path) s = (Inl error, s'))
      \<and> (searchIssues client (no_search\<lparr>search_query := Some path\<rparr>) s = (Inl error, s') \<longrightarrow>
           readResource client (''linear-search://'' @ path) s = (Inl error, s'))
      \<and> (priorityMap (toLowerCase path) = Some priority
          \<and> searchIssues client (no_search\<lparr>search_priority := Some priority\<rparr>) s =
              (Inl error, s') \<longrightarrow>
           readResource client (''linear-priority://'' @ path) s = (Inl error, s'))"
    if p: "path \<noteq> [] \<and> (\<forall>c\<in>set path. \<not> line_terminator c)"
  proof -
    from p have tw: "takeWhile (\<lambda>c. \<not> line_terminator c) path = path"
      by (simp add: takeWhile_eq_all_conv)
    have m: "protocolMatch (scheme @ ''://'' @ path) = Some (scheme, path)"
      if "scheme \<noteq> []" "CHR '':'' \<notin> set scheme" for scheme
      using protocolMatch_scheme[OF that, of path] tw by simp
    have m1: "protocolMatch (''linear-issue://'' @ path) = Some (''linear-issue'', path)"
      using m[of "''linear-issue''"] by simp
    have m2: "protocolMatch (''linear-team://'' @ path) = Some (''linear-team'', path)"
      using m[of "''linear-team''"] by simp
    have m3: "protocolMatch (''linear-user://'' @ path) = Some (''linear-user'', path)"
      using m[of "''linear-user''"] by simp
    have m4: "protocolMatch (''linear-search://'' @ path) = Some (''linear-search'', path)"
      using m[of "''linear-search''"] by simp
    have m5: "protocolMatch (''linear-priority://'' @ path) = Some (''linear-priority'', path)"
      using m[of "''linear-priority''"] by simp
    from p have ne: "path \<noteq> []" by simp
    show ?thesis
      unfolding readResource_def m1 m2 m3 m4 m5
      using ne by (auto simp: io_bind_result)
  qed
  have u: "unhandled (snd (callTool client name arguments s)) = unhandled s"
    by (rule handledD[OF handled_callTool])
  have t1: "readResource client ''linear-organization://'' s = (Inl error, s')"
    if "getOrganization client s = (Inl error, s')"
    using that by (simp add: readResource_def protocolMatch_def io_bind_result)
  have t2: "readResource client ''linear-viewer://'' s = (Inl error, s')"
    if "getViewer client s = (Inl error, s')"
    using that by (simp add: readResource_def protocolMatch_def io_bind_result)
  have t3: "readResource client ''linear-my-issues://'' s = (Inl error, s')"
    if "getUserIssues client \<lparr>get_userId = None, get_includeArchived = None, get_limit = None\<rparr> s =
          (Inl error, s')"
    using that by (simp add: readResource_def protocolMatch_def io_bind_result)
  have t4: "readResource client ''linear-recent-issues://'' s = (Inl error, s')"
    if "listIssues client s = (Inl error, s')"
    using that by (simp add: readResource_def protocolMatch_def io_bind_result)
  have v: "callTool client ''linear_create_issue'' (Some args) s =
        (error_result (ZodError issues),
         s\<lparr>stderr := stderr s @ [LogError ''Error executing tool:'' (ZodError issues)]\<rparr>)"
    if "CreateIssueArgsSchema args = Inl issues"
    using that by (simp add: callTool_apply callTool_try_def io_bind_parse_Inl)
  have w: "callTool client ''linear_update_issue'' (Some args) s =
        (error_result (ZodError issues),
         s\<lparr>stderr := stderr s @ [LogError ''Error executing tool:'' (ZodError issues)]\<rparr>)"
    if "UpdateIssueArgsSchema args = Inl issues"
    using that by (simp add: callTool_apply callTool_try_def io_bind_parse_Inl)
  have x: "callTool client ''linear_search_issues'' (Some args) s =
        (error_result (ZodError issues),
         s\<lparr>stderr := stderr s @ [LogError ''Error executing tool:'' (ZodError issues)]\<rparr>)"
    if "SearchIssuesArgsSchema args = Inl issues"
    using that by (simp add: callTool_apply callTool_try_def io_bind_parse_Inl)
  have y: "callTool client ''linear_get_user_issues'' (Some args) s =
        (error_result (ZodError issues),
         s\<lparr>stderr := stderr s @ [LogError ''Error executing tool:'' (ZodError issues)]\<rparr>)"
    if "GetUserIssuesArgsSchema args = Inl issues"
    using that by (simp add: callTool_apply callTool_try_def io_bind_parse_Inl)
  have z: "callTool client ''linear_add_comment'' (Some args) s =
        (error_result (ZodError issues),
         s\<lparr>stderr := stderr s @ [LogError ''Error executing tool:'' (ZodError issues)]\<rparr>)"
    if "AddCommentArgsSchema args = Inl issues"
    using that by (simp add: callTool_apply callTool_try_def io_bind_parse_Inl)
  have n: "issues \<noteq> []"
    if "CreateIssueArgsSchema args = Inl issues \<or> UpdateIssueArgsSchema args = Inl issues \<or>
        SearchIssuesArgsSchema args = Inl issues \<or> GetUserIssuesArgsSchema args = Inl issues \<or>
        AddCommentArgsSchema args = Inl issues"
    using that reports_CreateIssueArgsSchema[of args] reports_UpdateIssueArgsSchema[of args]
      reports_SearchIssuesArgsSchema[of args] reports_GetUserIssuesArgsSchema[of args]
      reports_AddCommentArgsSchema[of args]
    by auto
  have f: "error_result (ZodError issues) =
        \<lparr>result_content = Some [ErrorText ''VALIDATION_ERROR'' ''Invalid request parameters''
           (Some (map (\<lambda>i. \<lparr>formatted_path = issue_path i, formatted_message = issue_message i,
                              formatted_code = ''VALIDATION_ERROR''\<rparr>) issues))],
         result_metadata_error = Some True, result_error = None\<rparr>"
    by (simp add: formattedErrors_def)
  have e: "callTool client name arguments s =
          (error_result error,
           s'\<lparr>stderr := stderr s' @ [LogError ''Error executing tool:'' error]\<rparr>)
        \<and> (result_metadata_error (error_result error) = Some True
           \<or> (\<exists>e. result_error (error_result error) = Some e))"
    if "callTool_try client name arguments s = (Inl error, s')"
    using that by (cases error) (simp_all add: callTool_apply)
  have r: "callTool client name arguments s = (result, s')
        \<and> result_metadata_error result = None \<and> result_error result = None"
    if "callTool_try client name arguments s = (Inr result, s')"
    using that callTool_try_success[OF that] by (auto simp: callTool_apply text_result_def)
  from v w x y z n f e r u t1 t2 t3 t4 t5 t6 t7 show ?thesis by blast
qed


theorem tool_failures_are_error_responses_witness:
  "CreateIssueArgsSchema [''title'' \<mapsto> JNum 3] =
     Inl [\<lparr>issue_path = [Key ''title''], issue_message = ''Expected string, received number''\<rparr>,
          \<lparr>issue_path = [Key ''teamId''], issue_message = ''Required''\<rparr>]
   \<and> callTool demo_client ''linear_create_issue'' (Some [''title'' \<mapsto> JNum 3]) start =
       (\<lparr>result_content = Some [ErrorText ''VALIDATION_ERROR'' ''Invalid request parameters''
           (Some [\<lparr>formatted_path = [Key ''title''],
                    formatted_message = ''Expected string, received number'',
                    formatted_code = ''VALIDATION_ERROR''\<rparr>,
                  \<lparr>formatted_path = [Key ''teamId''], formatted_message = ''Required'',
                    formatted_code = ''VALIDATION_ERROR''\<rparr>])],
         result_metadata_error = Some True, result_error = None\<rparr>,
        \<lparr>calls = [],
         stderr = [LogError ''Error executing tool:''
           (ZodError [\<lparr>issue_path = [Key ''title''],
                        issue_message = ''Expected string, received number''\<rparr>,
                      \<lparr>issue_path = [Key ''teamId''], issue_message = ''Required''\<rparr>])],
         unhandled = []\<rparr>)
   \<and> readResource failing_viewer_client ''linear-my-backlog://'' start =
       (Inl (Error ''Authentication required''),
        \<lparr>calls = [OpViewer], stderr = [], unhandled = []\<rparr>)
   \<and> readResource failing_viewer_client ''linear-user://me'' start =
       (Inl (Error ''Authentication required''),
        \<lparr>calls = [OpViewer],
         stderr = [LogError ''Error in getUserIssues: '' (Error ''Authentication required'')],
         unhandled = []\<rparr>)"
proof -
  have p: "CreateIssueArgsSchema [''title'' \<mapsto> JNum 3] =
     Inl [\<lparr>issue_path = [Key ''title''], issue_message = ''Expected string, received number''\<rparr>,
          \<lparr>issue_path = [Key ''teamId''], issue_message = ''Required''\<rparr>]"
    by (simp add: CreateIssueArgsSchema_def z_field_def z_string_def z_optional_def
        invalid_type_def)
  have a: "callTool demo_client ''linear_create_issue'' (Some [''title'' \<mapsto> JNum 3]) start =
       (\<lparr>result_content = Some [ErrorText ''VALIDATION_ERROR'' ''Invalid request parameters''
           (Some [\<lparr>formatted_path = [Key ''title''],
                    formatted_message = ''Expected string, received number'',
                    formatted_code = ''VALIDATION_ERROR''\<rparr>,
                  \<lparr>formatted_path = [Key ''teamId''], formatted_message = ''Required'',
                    formatted_code = ''VALIDATION_ERROR''\<rparr>])],
         result_metadata_error = Some True, result_error = None\<rparr>,
        \<lparr>calls = [],
         stderr = [LogError ''Error executing tool:''
           (ZodError [\<lparr>issue_path = [Key ''title''],
                        issue_message = ''Expected string, received number''\<rparr>,
                      \<lparr>issue_path = [Key ''teamId''], issue_message = ''Required''\<rparr>])],
         unhandled = []\<rparr>)"
    using tool_failures_are_error_responses[where args = "[''title'' \<mapsto> JNum 3]"
      and issues = "[\<lparr>issue_path = [Key ''title''],
            issue_message = ''Expected string, received number''\<rparr>,
          \<lparr>issue_path = [Key ''teamId''], issue_message = ''Required''\<rparr>]"
      and client = demo_client and s = start and name = "''linear_create_issue''"
      and arguments = "Some [''title'' \<mapsto> JNum 3]"] p
    by (simp add: start_def)
  have v: "getViewer failing_viewer_client start =
      (Inl (Error ''Authentication required''),
       \<lparr>calls = [OpViewer], stderr = [], unhandled = []\<rparr>)"
    by (simp add: getViewer_def run_defs failing_viewer_client_def start_def)
  have g: "getUserIssues failing_viewer_client
      \<lparr>get_userId = None, get_includeArchived = None, get_limit = None\<rparr> start =
      (Inl (Error ''Authentication required''),
       \<lparr>calls = [OpViewer],
        stderr = [LogError ''Error in getUserIssues: '' (Error ''Authentication required'')],
        unhandled = []\<rparr>)"
    by (simp add: getUserIssues_def getUserIssues_try_def string_or_null_def run_defs
        failing_viewer_client_def
        start_def)
  have b: "readResource failing_viewer_client ''linear-my-backlog://'' start =
       (Inl (Error ''Authentication required''),
        \<lparr>calls = [OpViewer], stderr = [], unhandled = []\<rparr>)"
    using tool_failures_are_error_responses[where client = failing_viewer_client
      and s = start and uri = "''linear-my-backlog://''"
      and error = "Error ''Authentication required''"
      and s' = "\<lparr>calls = [OpViewer], stderr = [], unhandled = []\<rparr>"] v
    by simp
  have c: "readResource failing_viewer_client ''linear-user://me'' start =
       (Inl (Error ''Authentication required''),
        \<lparr>calls = [OpViewer],
         stderr = [LogError ''Error in getUserIssues: '' (Error ''Authentication required'')],
         unhandled = []\<rparr>)"
    using tool_failures_are_error_responses[where client = failing_viewer_client
      and s = start and path = "''me''"
      and error = "Error ''Authentication required''"
      and s' = "\<lparr>calls = [OpViewer],
         stderr = [LogError ''Error in getUserIssues: '' (Error ''Authentication required'')],
         unhandled = []\<rparr>"] g
    by (simp add: line_terminator_def)
  from p a b c show ?thesis by simp
qed

subsection \<open>The priority of a new issue\<close>

lemma issues_of_CreateIssueArgsSchema:
  "issues_of (CreateIssueArgsSchema args) =
     issues_of (z_field args ''title'' z_string) @
     issues_of (z_field args ''teamId'' z_string) @
     issues_of (z_field args ''description'' (z_optional z_string)) @
     issues_of (z_field args ''priority'' (z_optional z_number_min_0_max_4)) @
     issues_of (z_field args ''status'' (z_optional z_string))"
  by (simp add: CreateIssueArgsSchema_def issues_of_z_ap) (simp add: issues_of_def)

lemma isl_CreateIssueArgsSchema:
  "isl (CreateIssueArgsSchema args) =
     (isl (z_field args ''title'' z_string) \<or>
      isl (z_field args ''teamId'' z_string) \<or>
      isl (z_field args ''description'' (z_optional z_string)) \<or>
      isl (z_field args ''priority'' (z_optional z_number_min_0_max_4)) \<or>
      isl (z_field args ''status'' (z_optional z_string)))"
  by (simp add: CreateIssueArgsSchema_def isl_z_ap)

lemma path_z_string:
  "i \<in> set (issues_of (z_field args key z_string)) \<Longrightarrow> issue_path i = [Key key]"
  by (auto simp: z_field_def z_string_def issues_of_def invalid_type_def
      split: option.splits json.splits)

lemma path_z_optional_z_string:
  "i \<in> set (issues_of (z_field args key (z_optional z_string))) \<Longrightarrow> issue_path i = [Key key]"
  by (auto simp: z_field_def z_optional_def z_string_def issues_of_def invalid_type_def
      split: option.splits json.splits)

lemma priority_rejected:
  assumes "args ''priority'' = Some v" and "case v of JNum n \<Rightarrow> n < 0 \<or> 4 < n | _ \<Rightarrow> True"
  shows "isl (z_field args ''priority'' (z_optional z_number_min_0_max_4))
     \<and> (\<exists>i\<in>set (issues_of (z_field args ''priority'' (z_optional z_number_min_0_max_4))).
          issue_path i = [Key ''priority''])"
  using assms
  by (cases v) (auto simp: z_field_def z_optional_def z_number_min_0_max_4_def z_number_def
      issues_of_def invalid_type_def)

lemma priority_accepted:
  assumes "args ''priority'' = Some v" and "case v of JNum n \<Rightarrow> 0 \<le> n \<and> n \<le> 4 | _ \<Rightarrow> False"
  shows "issues_of (z_field args ''priority'' (z_optional z_number_min_0_max_4)) = []"
  using assms
  by (cases v) (auto simp: z_field_def z_optional_def z_number_min_0_max_4_def z_number_def
      issues_of_def)

text \<open>
  C3, as stated, fails: the schema of linear_create_issue accepts the priority 2.5, which
  is not an integer, and the issue is created with it.
\<close>

theorem create_issue_fractional_priority_counterexample:
  "CreateIssueArgsSchema
       [''title'' \<mapsto> JStr ''T'', ''teamId'' \<mapsto> JStr ''X'', ''priority'' \<mapsto> JNum (5 / 2)] =
     Inr \<lparr>create_title = ''T'', create_teamId = ''X'', create_description = None,
          create_priority = Some (5 / 2), create_status = None\<rparr>
   \<and> calls (snd (callTool demo_client ''linear_create_issue''
       (Some [''title'' \<mapsto> JStr ''T'', ''teamId'' \<mapsto> JStr ''X'', ''priority'' \<mapsto> JNum (5 / 2)])
       start)) =
     [OpCreateIssue \<lparr>input_title = ''T'', input_teamId = ''X'', input_description = None,
        input_priority = Some (5 / 2), input_stateId = None\<rparr>, OpCreatedIssue]"
proof -
  have p: "CreateIssueArgsSchema
       [''title'' \<mapsto> JStr ''T'', ''teamId'' \<mapsto> JStr ''X'', ''priority'' \<mapsto> JNum (5 / 2)] =
     Inr \<lparr>create_title = ''T'', create_teamId = ''X'', create_description = None,
          create_priority = Some (5 / 2), create_status = None\<rparr>"
    by (simp add: CreateIssueArgsSchema_def z_field_def z_string_def z_optional_def
        z_number_min_0_max_4_def z_number_def)
  show ?thesis
    by (simp add: p callTool_def callTool_try_def parse_def createIssue_def
        run_defs demo_client_def start_def)
qed

text \<open>
  The schema of linear_update_issue checks no range at all.
\<close>

lemma update_issue_priority_unchecked:
  "UpdateIssueArgsSchema [''id'' \<mapsto> JStr ''i1'', ''priority'' \<mapsto> JNum 7] =
     Inr \<lparr>update_id = ''i1'', update_title = None, update_description = None,
          update_priority = Some 7, update_status = None\<rparr>"
  by (simp add: UpdateIssueArgsSchema_def z_field_def z_string_def z_optional_def z_number_def)

text \<open>
  C3, amended: for linear_create_issue, a supplied priority must be a number from 0 to 4
  (not necessarily an integer). A call whose priority is not a number, or is below 0 or
  above 4, is rejected by the schema with an issue at the path \<open>priority\<close>, and no
  remote call is made; a priority from 0 to 4 raises no issue.
\<close>

theorem create_issue_priority_validated:
  "args ''priority'' = Some v \<longrightarrow>
    ((case v of JNum n \<Rightarrow> n < 0 \<or> 4 < n | _ \<Rightarrow> True) \<longrightarrow>
       (\<exists>issues. CreateIssueArgsSchema args = Inl issues
          \<and> (\<exists>i\<in>set issues. issue_path i = [Key ''priority''])
          \<and> callTool client ''linear_create_issue'' (Some args) s =
              (error_result (ZodError issues),
               s\<lparr>stderr := stderr s @ [LogError ''Error executing tool:'' (ZodError issues)]\<rparr>)
          \<and> calls (snd (callTool client ''linear_create_issue'' (Some args) s)) = calls s))
    \<and> ((case v of JNum n \<Rightarrow> 0 \<le> n \<and> n \<le> 4 | _ \<Rightarrow> False) \<longrightarrow>
       (\<forall>i\<in>set (issues_of (CreateIssueArgsSchema args)). issue_path i \<noteq> [Key ''priority'']))"
proof (intro impI conjI)
  assume p: "args ''priority'' = Some v" and bad: "case v of JNum n \<Rightarrow> n < 0 \<or> 4 < n | _ \<Rightarrow> True"
  from priority_rejected[where args=args and v=v] p bad
  have l: "isl (CreateIssueArgsSchema args)"
    and i: "\<exists>i\<in>set (issues_of (CreateIssueArgsSchema args)). issue_path i = [Key ''priority'']"
    by (auto simp: isl_CreateIssueArgsSchema issues_of_CreateIssueArgsSchema)
  from l obtain issues where e: "CreateIssueArgsSchema args = Inl issues"
    by (cases "CreateIssueArgsSchema args") auto
  from i e have j: "\<exists>i\<in>set issues. issue_path i = [Key ''priority'']"
    by (simp add: issues_of_def)
  have c: "callTool client ''linear_create_issue'' (Some args) s =
              (error_result (ZodError issues),
               s\<lparr>stderr := stderr s @ [LogError ''Error executing tool:'' (ZodError issues)]\<rparr>)"
    by (simp add: callTool_apply callTool_try_def e io_bind_parse_Inl)
  from e j c show "\<exists>issues. CreateIssueArgsSchema args = Inl issues
          \<and> (\<exists>i\<in>set issues. issue_path i = [Key ''priority''])
          \<and> callTool client ''linear_create_issue'' (Some args) s =
              (error_result (ZodError issues),
               s\<lparr>stderr := stderr s @ [LogError ''Error executing tool:'' (ZodError issues)]\<rparr>)
          \<and> calls (snd (callTool client ''linear_create_issue'' (Some args) s)) = calls s"
    by (intro exI[of _ issues]) simp
next
  assume p: "args ''priority'' = Some v"
    and good: "case v of JNum n \<Rightarrow> 0 \<le> n \<and> n \<le> 4 | _ \<Rightarrow> False"
  show "\<forall>i\<in>set (issues_of (CreateIssueArgsSchema args)). issue_path i \<noteq> [Key ''priority'']"
    using priority_accepted[where args=args and v=v] p good path_z_string[of _ args] path_z_optional_z_string[of _ args]
    by (auto simp: issues_of_CreateIssueArgsSchema)
qed

theorem create_issue_priority_validated_witness:
  "(\<exists>issues. CreateIssueArgsSchema
        [''title'' \<mapsto> JStr ''T'', ''teamId'' \<mapsto> JStr ''X'', ''priority'' \<mapsto> JNum 5] = Inl issues
      \<and> calls (snd (callTool demo_client ''linear_create_issue''
          (Some [''title'' \<mapsto> JStr ''T'', ''teamId'' \<mapsto> JStr ''X'', ''priority'' \<mapsto> JNum 5])
          start)) = [])"
  using create_issue_priority_validated[of
      "[''title'' \<mapsto> JStr ''T'', ''teamId'' \<mapsto> JStr ''X'', ''priority'' \<mapsto> JNum 5]"
      "JNum 5" demo_client start]
  by (auto simp: start_def)

end
